theory Spec2Isabelle
  imports Complex_Main "HOL-Library.Multiset"
begin

section \<open>The malpractice monitor of Callify (src/hooks/useMalpracticeMonitor.ts)\<close>

text \<open>
  The hook polls a hidden video element, asks a face detector for the bounding boxes of the
  faces in the current frame and turns them into warning flags. The model below follows the
  source function by function. Conventions:
  \<^item> timestamps (\<open>Date.now()\<close>) are integers (milliseconds);
  \<^item> the coordinates of a bounding box are JavaScript numbers; they are modelled as exact
    rationals, so rounding, infinities and NaN are outside the model;
  \<^item> React state is a record; a state setter that is handed an updater function applies it
    to the current value at once;
  \<^item> an \<open>await\<close> splits a function into the part before the suspension and the
    continuation, so that other code may run in between.
\<close>

subsection \<open>Data model\<close>

datatype MalpracticeFlagType =
  multiple_faces_detected | no_face_detected | face_near_frame_edge

record MalpracticeFlag =
  flag_type :: MalpracticeFlagType
  message :: string
  since :: int

datatype DetectorSource = native | fallback

text \<open>\<open>DOMRectReadOnly\<close>: only the four fields the hook reads.\<close>

record DOMRectReadOnly =
  rect_x :: rat
  rect_y :: rat
  width :: rat
  height :: rat

record DetectionResult =
  boundingBox :: DOMRectReadOnly

definition DETECTION_INTERVAL_MS :: int where
  "DETECTION_INTERVAL_MS = 750"

definition NO_FACE_THRESHOLD_MS :: int where
  "NO_FACE_THRESHOLD_MS = 3000"

definition EDGE_THRESHOLD_MS :: int where
  "EDGE_THRESHOLD_MS = 1500"

definition EDGE_MARGIN_RATIO :: rat where
  "EDGE_MARGIN_RATIO = 8 / 100"

fun FLAG_MESSAGES :: "MalpracticeFlagType \<Rightarrow> string" where
  "FLAG_MESSAGES multiple_faces_detected =
     ''Multiple faces detected in frame. Possible impersonation.''"
| "FLAG_MESSAGES no_face_detected =
     ''No face detected for several seconds. Head may be out of frame.''"
| "FLAG_MESSAGES face_near_frame_edge =
     ''Face detected at the edge of the frame. Adjust position.''"

definition FLAG_PRIORITY :: "MalpracticeFlagType list" where
  "FLAG_PRIORITY = [multiple_faces_detected, no_face_detected, face_near_frame_edge]"

subsection \<open>Ordering the detected faces\<close>

text \<open>
  \<open>Array.prototype.sort\<close> with a comparator \<open>cmp\<close>: ECMAScript requires a stable sort
  in which \<open>a\<close> comes before \<open>b\<close> when \<open>cmp a b < 0\<close> and after it when
  \<open>cmp a b > 0\<close>. It is modelled as a stable insertion sort driven by the comparator.
\<close>

fun sort_insert :: "('a \<Rightarrow> 'a \<Rightarrow> rat) \<Rightarrow> 'a \<Rightarrow> 'a list \<Rightarrow> 'a list" where
  "sort_insert cmp a [] = [a]"
| "sort_insert cmp a (b # bs) =
     (if cmp a b \<le> 0 then a # b # bs else b # sort_insert cmp a bs)"

fun array_sort :: "('a \<Rightarrow> 'a \<Rightarrow> rat) \<Rightarrow> 'a list \<Rightarrow> 'a list" where
  "array_sort cmp [] = []"
| "array_sort cmp (a # as) = sort_insert cmp a (array_sort cmp as)"

definition area :: "DetectionResult \<Rightarrow> rat" where
  "area a = width (boundingBox a) * height (boundingBox a)"

text \<open>The comparator of \<open>runDetection\<close>: \<open>(a, b) => areaB - areaA\<close>.\<close>

definition compareArea :: "DetectionResult \<Rightarrow> DetectionResult \<Rightarrow> rat" where
  "compareArea a b =
     (let areaA = width (boundingBox a) * height (boundingBox a);
          areaB = width (boundingBox b) * height (boundingBox b)
      in areaB - areaA)"

definition orderedFaces :: "DetectionResult list \<Rightarrow> DetectionResult list" where
  "orderedFaces faces =
     (if length faces > 1 then array_sort compareArea faces else faces)"

subsection \<open>Hook state\<close>

text \<open>
  The video element: \<open>srcObject\<close> is the identity of the bound \<open>MediaStream\<close>
  (\<open>None\<close> for \<open>null\<close>); the other three fields are the browser's read-only
  properties.
\<close>

record HTMLVideoElement =
  srcObject :: "nat option"
  readyState :: nat
  videoWidth :: nat
  videoHeight :: nat

text \<open>
  A \<open>DetectionAdapter\<close>: its source and whether it has a \<open>dispose\<close> method. What
  \<open>detect\<close> answers is an input of the continuation of \<open>runDetection\<close>.
\<close>

record DetectionAdapter =
  source :: DetectorSource
  dispose :: bool

text \<open>
  The React state of the hook (\<open>flags\<close> to \<open>detectorSource\<close>), its refs, the
  \<open>isCancelled\<close> variable of the effect, and what the hook does to its surroundings:
  the timeouts of \<open>window\<close> that are pending, the last timeout handle handed out, and
  how often an adapter was disposed or asked to detect. \<open>flagsVersion\<close> stands for
  the identity of the array held in \<open>flags\<close>: it changes exactly when \<open>setFlags\<close>
  stores an array other than the one it was given.
\<close>

record MonitorState =
  flags :: "MalpracticeFlag list"
  flagsVersion :: nat
  error :: "string option"
  isMonitoring :: bool
  detectorAvailable :: bool
  detectorSource :: "DetectorSource option"
  detectorRef :: "DetectionAdapter option"
  videoRef :: "HTMLVideoElement option"
  detectionTimerRef :: "nat option"
  mediaStreamSubRef :: "nat option"
  noFaceSinceRef :: "int option"
  edgeSinceRef :: "int option"
  isCancelled :: bool
  pendingTimeouts :: "nat list"
  lastTimeoutId :: nat
  disposeCalls :: nat
  detectCalls :: nat

text \<open>
  What an updater function handed to \<open>setFlags\<close> returns: the array it was given
  (\<open>return prev\<close>) or another array.
\<close>

datatype 'a updated = Same | Fresh 'a

definition setFlags ::
  "(MalpracticeFlag list \<Rightarrow> MalpracticeFlag list updated) \<Rightarrow> MonitorState \<Rightarrow> MonitorState" where
  "setFlags f s =
     (case f (flags s) of
        Same \<Rightarrow> s
      | Fresh new \<Rightarrow> s\<lparr>flags := new, flagsVersion := Suc (flagsVersion s)\<rparr>)"

text \<open>
  \<open>window.setTimeout(runDetection, DETECTION_INTERVAL_MS)\<close> stored in
  \<open>detectionTimerRef\<close>: handles are positive and new.
\<close>

definition scheduleDetection :: "MonitorState \<Rightarrow> MonitorState" where
  "scheduleDetection s =
     (let h = Suc (lastTimeoutId s)
      in s\<lparr>pendingTimeouts := pendingTimeouts s @ [h],
            lastTimeoutId := h,
            detectionTimerRef := Some h\<rparr>)"

subsection \<open>updateFlags and resetFlags\<close>

text \<open>
  \<open>new Map(prev.map((flag) => [flag.type, flag]))\<close>: of two entries with one key the
  later one stays.
\<close>

definition previousByType ::
  "MalpracticeFlag list \<Rightarrow> MalpracticeFlagType \<Rightarrow> MalpracticeFlag option" where
  "previousByType prev = map_of (rev (map (\<lambda>flag. (flag_type flag, flag)) prev))"

definition prioritizedTypes :: "MalpracticeFlagType list \<Rightarrow> MalpracticeFlagType list" where
  "prioritizedTypes types = filter (\<lambda>ty. ty \<in> set types) FLAG_PRIORITY"

text \<open>
  \<open>prioritizedTypes.every((type, index) => prev[index]?.type === type)\<close>; an index
  beyond \<open>prev\<close> reads \<open>undefined\<close>, which equals no type.
\<close>

definition everyTypeMatches :: "MalpracticeFlagType list \<Rightarrow> MalpracticeFlag list \<Rightarrow> bool" where
  "everyTypeMatches tys prev =
     list_all (\<lambda>(ty, index). index < length prev \<and> flag_type (prev ! index) = ty)
       (zip tys [0 ..< length tys])"

definition updateFlags_updater ::
  "MalpracticeFlagType list \<Rightarrow> int \<Rightarrow> MalpracticeFlag list \<Rightarrow> MalpracticeFlag list updated" where
  "updateFlags_updater types timestamp prev =
     (if length (prioritizedTypes types) = length prev
         \<and> everyTypeMatches (prioritizedTypes types) prev
      then Same
      else Fresh (map (\<lambda>ty.
             case previousByType prev ty of
               Some existing \<Rightarrow> existing
             | None \<Rightarrow> \<lparr>flag_type = ty, message = FLAG_MESSAGES ty, since = timestamp\<rparr>)
           (prioritizedTypes types)))"

definition updateFlags :: "MalpracticeFlagType list \<Rightarrow> int \<Rightarrow> MonitorState \<Rightarrow> MonitorState" where
  "updateFlags types timestamp s = setFlags (updateFlags_updater types timestamp) s"

definition resetFlags_updater :: "MalpracticeFlag list \<Rightarrow> MalpracticeFlag list updated" where
  "resetFlags_updater prev = (if length prev \<noteq> 0 then Fresh [] else Same)"

definition resetFlags :: "MonitorState \<Rightarrow> MonitorState" where
  "resetFlags s =
     (setFlags resetFlags_updater s)\<lparr>noFaceSinceRef := None, edgeSinceRef := None\<rparr>"

subsection \<open>stopLoop\<close>

definition stopLoop :: "MonitorState \<Rightarrow> MonitorState" where
  "stopLoop s =
     (let s1 = (case detectionTimerRef s of
                  Some h \<Rightarrow>
                    if h \<noteq> 0
                    then s\<lparr>pendingTimeouts := removeAll h (pendingTimeouts s),
                           detectionTimerRef := None\<rparr>
                    else s
                | None \<Rightarrow> s);
          adapter = detectorRef s1;
          s2 = s1\<lparr>detectorRef := None\<rparr>;
          s3 = (case adapter of
                  Some a \<Rightarrow> if dispose a then s2\<lparr>disposeCalls := Suc (disposeCalls s2)\<rparr> else s2
                | None \<Rightarrow> s2);
          s4 = s3\<lparr>videoRef := None\<rparr>;
          s5 = s4\<lparr>mediaStreamSubRef := None\<rparr>
      in s5\<lparr>noFaceSinceRef := None, edgeSinceRef := None\<rparr>)"

subsection \<open>runDetection\<close>

text \<open>
  A thrown value: an \<open>Error\<close> with its message, or any other value
  (\<open>err instanceof Error ? err.message : ...\<close>).
\<close>

datatype thrown = ErrorObject string | OtherValue

text \<open>What the promise of \<open>detect\<close> settles to.\<close>

datatype detect_outcome = Resolved "DetectionResult list" | Rejected thrown

text \<open>
  The first part of \<open>runDetection\<close> either returns or suspends at
  \<open>await detectorRef.current.detect(videoRef.current)\<close>.
\<close>

datatype suspension = Returned MonitorState | AwaitingDetect MonitorState

definition runDetection_start :: "MonitorState \<Rightarrow> suspension" where
  "runDetection_start s =
     (case videoRef s of
        None \<Rightarrow> Returned s
      | Some video \<Rightarrow>
          if isCancelled s \<or> detectorRef s = None then Returned s
          else if srcObject video = None then Returned (scheduleDetection (resetFlags s))
          else if readyState video < 2 \<or> videoWidth video = 0
               then Returned (scheduleDetection s)
          else AwaitingDetect (s\<lparr>detectCalls := Suc (detectCalls s)\<rparr>))"

definition touchesEdge :: "DOMRectReadOnly \<Rightarrow> nat \<Rightarrow> nat \<Rightarrow> bool" where
  "touchesEdge box vw vh =
     (let left = rect_x box / of_nat vw;
          top = rect_y box / of_nat vh;
          right = (rect_x box + width box) / of_nat vw;
          bottom = (rect_y box + height box) / of_nat vh
      in left \<le> EDGE_MARGIN_RATIO \<or> top \<le> EDGE_MARGIN_RATIO
         \<or> right \<ge> 1 - EDGE_MARGIN_RATIO \<or> bottom \<ge> 1 - EDGE_MARGIN_RATIO)"

text \<open>
  The body of the \<open>try\<close> block from \<open>orderedFaces\<close> to the end of the two branches:
  it updates the two timers and yields \<open>nextFlags\<close>. Reading \<open>videoWidth\<close> of a
  \<open>videoRef.current\<close> that \<open>stopLoop\<close> has cleared meanwhile throws a
  \<open>TypeError\<close> (the text of its message is the engine's).
\<close>

definition evaluateFaces ::
  "DetectionResult list \<Rightarrow> int \<Rightarrow> MonitorState
     \<Rightarrow> (thrown \<times> MonitorState) + (MalpracticeFlagType list \<times> MonitorState)" where
  "evaluateFaces faces now s =
     (let ordered = orderedFaces faces
      in case ordered of
           [] \<Rightarrow>
             (let s1 = (if noFaceSinceRef s = None then s\<lparr>noFaceSinceRef := Some now\<rparr> else s);
                  nextFlags =
                    (if now - (case noFaceSinceRef s1 of Some t \<Rightarrow> t | None \<Rightarrow> now)
                          \<ge> NO_FACE_THRESHOLD_MS
                     then [no_face_detected] else [])
              in Inr (nextFlags, s1\<lparr>edgeSinceRef := None\<rparr>))
         | primaryFace # others \<Rightarrow>
             (let s1 = s\<lparr>noFaceSinceRef := None\<rparr>;
                  nextFlags = (if length ordered > 1 then [multiple_faces_detected] else [])
              in case videoRef s1 of
                   None \<Rightarrow> Inl (ErrorObject ''TypeError'', s1)
                 | Some video \<Rightarrow>
                     if videoWidth video \<noteq> 0 \<and> videoHeight video \<noteq> 0
                     then
                       if touchesEdge (boundingBox primaryFace)
                            (videoWidth video) (videoHeight video)
                       then
                         (let s2 = (if edgeSinceRef s1 = None
                                    then s1\<lparr>edgeSinceRef := Some now\<rparr> else s1)
                          in if now - (case edgeSinceRef s2 of Some t \<Rightarrow> t | None \<Rightarrow> now)
                                  \<ge> EDGE_THRESHOLD_MS
                                \<and> multiple_faces_detected \<notin> set nextFlags
                             then Inr (nextFlags @ [face_near_frame_edge], s2)
                             else Inr (nextFlags, s2))
                       else Inr (nextFlags, s1\<lparr>edgeSinceRef := None\<rparr>)
                     else Inr (nextFlags, s1)))"

text \<open>The \<open>catch\<close> block when \<open>isCancelled\<close> is false.\<close>

definition detectionFailed :: "thrown \<Rightarrow> MonitorState \<Rightarrow> MonitorState" where
  "detectionFailed err s =
     (let s1 = s\<lparr>error := Some (case err of
                                   ErrorObject msg \<Rightarrow> msg
                                 | OtherValue \<Rightarrow> ''Face detection failed unexpectedly.'')\<rparr>;
          s2 = s1\<lparr>isMonitoring := False\<rparr>;
          s3 = stopLoop s2;
          s4 = s3\<lparr>detectorAvailable := False\<rparr>;
          s5 = s4\<lparr>detectorSource := None\<rparr>
      in resetFlags s5)"

text \<open>
  The continuation of \<open>runDetection\<close> once the promise of \<open>detect\<close> has settled;
  \<open>now\<close> is what \<open>Date.now()\<close> answers.
\<close>

definition runDetection_resume :: "detect_outcome \<Rightarrow> int \<Rightarrow> MonitorState \<Rightarrow> MonitorState" where
  "runDetection_resume outcome now s =
     (case (case outcome of
              Rejected err \<Rightarrow> Inl (err, s)
            | Resolved faces \<Rightarrow> evaluateFaces faces now s) of
        Inr (nextFlags, s') \<Rightarrow>
          scheduleDetection
            (if length nextFlags \<noteq> 0 then updateFlags nextFlags now s' else resetFlags s')
      | Inl (err, s') \<Rightarrow>
          if \<not> isCancelled s' then detectionFailed err s' else scheduleDetection s')"

text \<open>One whole run with nothing else happening while \<open>detect\<close> is awaited.\<close>

definition runDetection :: "detect_outcome \<Rightarrow> int \<Rightarrow> MonitorState \<Rightarrow> MonitorState" where
  "runDetection outcome now s =
     (case runDetection_start s of
        Returned s' \<Rightarrow> s'
      | AwaitingDetect s' \<Rightarrow> runDetection_resume outcome now s')"

subsection \<open>The polling loop\<close>

text \<open>
  A tick of the loop: the browser has brought the video element to \<open>tick_video\<close>, the
  oldest pending timeout fires and runs \<open>runDetection\<close>, in which \<open>detect\<close> settles
  to \<open>tick_outcome\<close> and \<open>Date.now()\<close> answers \<open>tick_now\<close>. With no pending
  timeout nothing runs.
\<close>

record tick =
  tick_video :: HTMLVideoElement
  tick_outcome :: detect_outcome
  tick_now :: int

definition fireTimeout :: "tick \<Rightarrow> MonitorState \<Rightarrow> MonitorState" where
  "fireTimeout t s =
     (case pendingTimeouts s of
        [] \<Rightarrow> s
      | h # hs \<Rightarrow>
          runDetection (tick_outcome t) (tick_now t)
            (s\<lparr>pendingTimeouts := hs,
               videoRef := (case videoRef s of None \<Rightarrow> None | Some v \<Rightarrow> Some (tick_video t))\<rparr>))"

fun runTicks :: "tick list \<Rightarrow> MonitorState \<Rightarrow> MonitorState" where
  "runTicks [] s = s"
| "runTicks (t # ts) s = runTicks ts (fireTimeout t s)"

subsection \<open>The effect: mounting and initialize\<close>

text \<open>The values of \<open>useState\<close> and \<open>useRef\<close> at the first render.\<close>

definition hookInitial :: MonitorState where
  "hookInitial =
     \<lparr>flags = [], flagsVersion = 0, error = None, isMonitoring = False,
      detectorAvailable = True, detectorSource = None,
      detectorRef = None, videoRef = None,
      detectionTimerRef = None, mediaStreamSubRef = None,
      noFaceSinceRef = None, edgeSinceRef = None, isCancelled = False,
      pendingTimeouts = [], lastTimeoutId = 0, disposeCalls = 0, detectCalls = 0\<rparr>"

text \<open>
  The effect up to the call of \<open>initialize\<close>: a new video element with nothing bound,
  \<open>setDetectorAvailable(true)\<close>, \<open>setError(undefined)\<close>.
\<close>

definition effectStart :: "MonitorState \<Rightarrow> MonitorState" where
  "effectStart s =
     s\<lparr>isCancelled := False,
       videoRef := Some \<lparr>srcObject = None, readyState = 0, videoWidth = 0, videoHeight = 0\<rparr>,
       detectorAvailable := True,
       error := None\<rparr>"

definition attachStream :: "nat option \<Rightarrow> MonitorState \<Rightarrow> MonitorState" where
  "attachStream stream s =
     (case videoRef s of
        None \<Rightarrow> s
      | Some video \<Rightarrow>
          (case stream of
             Some st \<Rightarrow>
               if srcObject video \<noteq> Some st
               then s\<lparr>videoRef := Some (video\<lparr>srcObject := Some st\<rparr>)\<rparr>
               else s
           | None \<Rightarrow> s\<lparr>videoRef := Some (video\<lparr>srcObject := None\<rparr>)\<rparr>))"

text \<open>
  The continuation of \<open>initialize\<close> once \<open>resolveDetector()\<close> has settled;
  \<open>stream\<close> is \<open>call.camera.state.mediaStream\<close> and \<open>observable\<close> tells whether
  \<open>call.camera.state.mediaStream$\<close> exists.
\<close>

definition initialize_resume ::
  "thrown + DetectionAdapter \<Rightarrow> nat option \<Rightarrow> bool \<Rightarrow> MonitorState \<Rightarrow> MonitorState" where
  "initialize_resume resolved stream observable s =
     (case resolved of
        Inr adapter \<Rightarrow>
          if isCancelled s
          then (if dispose adapter then s\<lparr>disposeCalls := Suc (disposeCalls s)\<rparr> else s)
          else
            (let s1 = s\<lparr>detectorRef := Some adapter,
                        detectorSource := Some (source adapter),
                        detectorAvailable := True,
                        isMonitoring := True\<rparr>;
                 s2 = attachStream stream s1;
                 s3 = (if observable then s2\<lparr>mediaStreamSubRef := Some 0\<rparr> else s2)
             in scheduleDetection s3)
      | Inl err \<Rightarrow>
          if \<not> isCancelled s
          then resetFlags
                 (s\<lparr>detectorAvailable := False,
                    detectorSource := None,
                    error := Some ''Face detection libraries failed to load. Malpractice monitoring is unavailable.'',
                    isMonitoring := False\<rparr>)
          else s)"

text \<open>
  The state in which the loop starts: mounted, a native adapter resolved, the camera
  stream 1 bound, the first run of \<open>runDetection\<close> scheduled.
\<close>

definition monitoring :: MonitorState where
  "monitoring =
     initialize_resume (Inr \<lparr>source = native, dispose = False\<rparr>) (Some 1) True
       (effectStart hookInitial)"

text \<open>A video element with the stream 1 bound and a frame of 640 by 480 at hand.\<close>

definition readyVideo :: HTMLVideoElement where
  "readyVideo = \<lparr>srcObject = Some 1, readyState = 4, videoWidth = 640, videoHeight = 480\<rparr>"

subsection \<open>Resolving a detector\<close>

text \<open>
  What the browser answers: whether \<open>window\<close> exists and what its property
  \<open>FaceDetector\<close> is (absent, a value that is not a function, or a function), what
  \<open>new window.FaceDetector(options)\<close> does when that property is a function (it
  returns a detector, \<open>None\<close>, or throws), which dynamic imports resolve, for which
  backends \<open>setBackend\<close> and \<open>ready\<close> resolve, and for which runtimes
  \<open>createDetector\<close> resolves.
\<close>

datatype window_property = absent | falsy_value | truthy_non_function | constructor

datatype tf_module =
  tfjs_core | tfjs_converter | tfjs_backend_webgl | tfjs_backend_cpu | face_detection

datatype backend = webgl | cpu

datatype runtime = tfjs | mediapipe

record Browser =
  hasWindow :: bool
  FaceDetector :: window_property
  construction :: "thrown option"
  importResolves :: "tf_module \<Rightarrow> bool"
  backendResolves :: "backend \<Rightarrow> bool"
  createDetectorResolves :: "runtime \<Rightarrow> bool"

definition nativeDetectorSupported :: "Browser \<Rightarrow> bool" where
  "nativeDetectorSupported b =
     (hasWindow b \<and> FaceDetector b \<noteq> absent \<and> FaceDetector b = constructor)"

definition createNativeAdapter :: "Browser \<Rightarrow> thrown + DetectionAdapter" where
  "createNativeAdapter b =
     (if \<not> hasWindow b then Inl (ErrorObject ''ReferenceError'')
      else case FaceDetector b of
        absent \<Rightarrow> Inl (ErrorObject ''FaceDetector API unavailable on this browser'')
      | falsy_value \<Rightarrow> Inl (ErrorObject ''FaceDetector API unavailable on this browser'')
      | truthy_non_function \<Rightarrow> Inl (ErrorObject ''TypeError'')
      | constructor \<Rightarrow>
          (case construction b of
             Some err \<Rightarrow> Inl err
           | None \<Rightarrow> Inr \<lparr>source = native, dispose = False\<rparr>))"

text \<open>
  What the fallback path does to the outside: the imports it starts, the backends it tries
  to initialise, the detectors it tries to create.
\<close>

datatype effect = Import tf_module | SetBackend backend | CreateDetector runtime

text \<open>
  The \<open>for\<close> loop over \<open>candidateBackends\<close>: the backend that was initialised, if
  any, and the attempts made.
\<close>

fun tryBackends :: "Browser \<Rightarrow> backend list \<Rightarrow> backend option \<times> effect list" where
  "tryBackends b [] = (None, [])"
| "tryBackends b (candidate # rest) =
     (if backendResolves b candidate then (Some candidate, [SetBackend candidate])
      else (case tryBackends b rest of
              (r, effs) \<Rightarrow> (r, SetBackend candidate # effs)))"

definition candidateBackends :: "backend list" where
  "candidateBackends = [webgl, cpu]"

text \<open>
  \<open>TfModules\<close>: the two modules; of \<open>tfCore\<close> the model keeps the backend that was
  initialised.
\<close>

record TfModules =
  backendInitialized :: backend

text \<open>
  The body of the \<open>try\<close> block inside \<open>ensureTfModules\<close>: what the promise settles
  to, and the effects on the way.
\<close>

definition loadTfModules :: "Browser \<Rightarrow> (thrown + TfModules) \<times> effect list" where
  "loadTfModules b =
     (if \<not> importResolves b tfjs_core
      then (Inl (ErrorObject ''import failed''), [Import tfjs_core])
      else
        (let started = [Import tfjs_core, Import tfjs_converter,
                        Import tfjs_backend_webgl, Import tfjs_backend_cpu]
         in if \<not> (importResolves b tfjs_converter \<and> importResolves b tfjs_backend_webgl
                   \<and> importResolves b tfjs_backend_cpu)
            then (Inl (ErrorObject ''import failed''), started)
            else
              (case tryBackends b candidateBackends of
                 (None, effs) \<Rightarrow>
                   (Inl (ErrorObject ''No TensorFlow backend available''), started @ effs)
               | (Some chosen, effs) \<Rightarrow>
                   if importResolves b face_detection
                   then (Inr \<lparr>backendInitialized = chosen\<rparr>,
                         started @ effs @ [Import face_detection])
                   else (Inl (ErrorObject ''import failed''),
                         started @ effs @ [Import face_detection]))))"

text \<open>
  The module-level state: \<open>tfModulesPromise\<close> (the identity of a promise, or null), the
  promises created so far with their states (a promise is its index in the list), and the
  effects so far.
\<close>

datatype promise_state = pending | fulfilled TfModules | rejected thrown

record ModuleState =
  tfModulesPromise :: "nat option"
  promises :: "promise_state list"
  effects :: "effect list"

text \<open>
  \<open>ensureTfModules()\<close> up to its \<open>return\<close>: with no memo it creates the promise of
  the initialisation and stores it; it returns the stored promise.
\<close>

definition ensureTfModules :: "ModuleState \<Rightarrow> nat \<times> ModuleState" where
  "ensureTfModules g =
     (case tfModulesPromise g of
        None \<Rightarrow>
          (let p = length (promises g)
           in (p, g\<lparr>promises := promises g @ [pending], tfModulesPromise := Some p\<rparr>))
      | Some p \<Rightarrow> (p, g))"

text \<open>
  The initialisation behind the pending promise \<open>p\<close> runs to its end. Between its
  \<open>await\<close>s only calls of \<open>ensureTfModules\<close> can touch the memo, and they find it
  set, so the run is taken as one step. On failure the \<open>catch\<close> block clears the memo
  before the promise is rejected.
\<close>

definition settleTfModules :: "Browser \<Rightarrow> nat \<Rightarrow> ModuleState \<Rightarrow> ModuleState" where
  "settleTfModules b p g =
     (if p < length (promises g) \<and> promises g ! p = pending
      then (case loadTfModules b of
              (Inr modules, effs) \<Rightarrow>
                g\<lparr>promises := (promises g)[p := fulfilled modules],
                  effects := effects g @ effs\<rparr>
            | (Inl err, effs) \<Rightarrow>
                g\<lparr>tfModulesPromise := None,
                  promises := (promises g)[p := rejected err],
                  effects := effects g @ effs\<rparr>)
      else g)"

text \<open>
  \<open>createFallbackAdapter\<close> after \<open>await ensureTfModules()\<close>: \<open>createDetector\<close> with
  the tfjs runtime, and with the mediapipe runtime if that fails.
\<close>

definition createFallbackAdapter_resume ::
  "Browser \<Rightarrow> promise_state \<Rightarrow> ModuleState \<Rightarrow> (thrown + DetectionAdapter) option \<times> ModuleState" where
  "createFallbackAdapter_resume b settled g =
     (case settled of
        pending \<Rightarrow> (None, g)
      | rejected err \<Rightarrow> (Some (Inl err), g)
      | fulfilled modules \<Rightarrow>
          if createDetectorResolves b tfjs
          then (Some (Inr \<lparr>source = fallback, dispose = True\<rparr>),
                g\<lparr>effects := effects g @ [CreateDetector tfjs]\<rparr>)
          else if createDetectorResolves b mediapipe
          then (Some (Inr \<lparr>source = fallback, dispose = True\<rparr>),
                g\<lparr>effects := effects g @ [CreateDetector tfjs, CreateDetector mediapipe]\<rparr>)
          else (Some (Inl (ErrorObject ''createDetector failed'')),
                g\<lparr>effects := effects g @ [CreateDetector tfjs, CreateDetector mediapipe]\<rparr>))"

text \<open>
  \<open>resolveDetector()\<close> up to its first suspension: with the native detector it settles
  at once; otherwise it waits for the promise of \<open>ensureTfModules\<close>.
\<close>

datatype resolution = Settled "thrown + DetectionAdapter" | AwaitingTfModules nat

definition resolveDetector :: "Browser \<Rightarrow> ModuleState \<Rightarrow> resolution \<times> ModuleState" where
  "resolveDetector b g =
     (if nativeDetectorSupported b then (Settled (createNativeAdapter b), g)
      else (case ensureTfModules g of (p, g') \<Rightarrow> (AwaitingTfModules p, g')))"

subsection \<open>What a tick shows of the edge condition\<close>

text \<open>
  The edge condition of the claims, read off a tick alone: \<open>Some True\<close> when the
  tick yields a primary face within the margin, \<open>Some False\<close> when it shows that
  there is none (no stream, a failing detector, no face, a primary face clear of the
  margin), and \<open>None\<close> when the tick assesses nothing (no frame yet, or a frame of
  height zero). It is used to state properties only; the code does not compute it.
\<close>

definition edgeObservation :: "tick \<Rightarrow> bool option" where
  "edgeObservation x =
     (let video = tick_video x
      in if srcObject video = None then Some False
         else if readyState video < 2 \<or> videoWidth video = 0 then None
         else case tick_outcome x of
                Rejected err \<Rightarrow> Some False
              | Resolved faces \<Rightarrow>
                  (case orderedFaces faces of
                     [] \<Rightarrow> Some False
                   | primaryFace # others \<Rightarrow>
                       if videoHeight video = 0 then None
                       else Some (touchesEdge (boundingBox primaryFace)
                                    (videoWidth video) (videoHeight video))))"

text \<open>
  The loop is live: a run of \<open>runDetection\<close> is pending and would get past its first
  check.
\<close>

definition loopLive :: "MonitorState \<Rightarrow> bool" where
  "loopLive s \<longleftrightarrow>
     pendingTimeouts s \<noteq> [] \<and> \<not> isCancelled s \<and> detectorRef s \<noteq> None \<and> videoRef s \<noteq> None"

section \<open>Properties\<close>

subsection \<open>The ordered snapshot\<close>

lemma sort_insert_insort_key:
  "sort_insert compareArea a bs = insort_key (\<lambda>b. - area b) a bs"
  by (induction bs) (simp_all add: compareArea_def area_def)

lemma array_sort_sort_key:
  "array_sort compareArea faces = sort_key (\<lambda>b. - area b) faces"
  by (induction faces) (simp_all add: sort_insert_insort_key)

lemma orderedFaces_sort_key:
  "orderedFaces faces = sort_key (\<lambda>b. - area b) faces"
proof (cases "length faces > 1")
  case True
  then show ?thesis by (simp add: orderedFaces_def array_sort_sort_key)
next
  case False
  then have "faces = [] \<or> (\<exists>a. faces = [a])"
    by (cases faces) (auto simp: Suc_lessI)
  then show ?thesis by (auto simp: orderedFaces_def)
qed

lemma orderedFaces_descending:
  "sorted_wrt (\<lambda>a b. area a \<ge> area b) (orderedFaces faces)"
proof -
  have "sorted (map (\<lambda>b. - area b) (orderedFaces faces))"
    by (simp add: orderedFaces_sort_key)
  then show ?thesis
    by (simp add: sorted_map)
qed

text \<open>
  C5. The snapshot that \<open>runDetection\<close> evaluates is \<open>orderedFaces\<close> of what the
  adapter returned: it is in descending order of area, it holds the same boxes, and boxes
  of equal area keep the order the adapter gave them. A smaller box followed by a larger
  one comes out as the larger followed by the smaller.
\<close>

theorem C5_snapshot_sorted_by_area:
  "sorted_wrt (\<lambda>a b. area a \<ge> area b) (orderedFaces faces)
   \<and> mset (orderedFaces faces) = mset faces
   \<and> (\<forall>k. filter (\<lambda>a. area a = k) (orderedFaces faces) = filter (\<lambda>a. area a = k) faces)
   \<and> (\<forall>boxA boxB. area boxA < area boxB \<longrightarrow> orderedFaces [boxA, boxB] = [boxB, boxA])"
proof (intro conjI allI impI)
  show "sorted_wrt (\<lambda>a b. area a \<ge> area b) (orderedFaces faces)"
    by (rule orderedFaces_descending)
  show "mset (orderedFaces faces) = mset faces"
    by (simp add: orderedFaces_sort_key)
  show "filter (\<lambda>a. area a = k) (orderedFaces faces) = filter (\<lambda>a. area a = k) faces" for k
  proof -
    have "filter (\<lambda>a. - area a = - k) (sort_key (\<lambda>b. - area b) faces)
          = filter (\<lambda>a. - area a = - k) faces"
      by (rule sort_key_stable)
    then show ?thesis
      by (simp add: orderedFaces_sort_key)
  qed
  show "orderedFaces [boxA, boxB] = [boxB, boxA]" if "area boxA < area boxB" for boxA boxB
    using that by (simp add: orderedFaces_def compareArea_def area_def)
qed

theorem C5_snapshot_sorted_by_area_witness:
  "orderedFaces
     [\<lparr>boundingBox = \<lparr>rect_x = 0, rect_y = 0, width = 25, height = 20\<rparr>\<rparr>,
      \<lparr>boundingBox = \<lparr>rect_x = 100, rect_y = 50, width = 30, height = 30\<rparr>\<rparr>]
   = [\<lparr>boundingBox = \<lparr>rect_x = 100, rect_y = 50, width = 30, height = 30\<rparr>\<rparr>,
      \<lparr>boundingBox = \<lparr>rect_x = 0, rect_y = 0, width = 25, height = 20\<rparr>\<rparr>]"
proof -
  have "area \<lparr>boundingBox = \<lparr>rect_x = 0, rect_y = 0, width = 25, height = 20\<rparr>\<rparr>
        < area \<lparr>boundingBox = \<lparr>rect_x = 100, rect_y = 50, width = 30, height = 30\<rparr>\<rparr>"
    by (simp add: area_def)
  with C5_snapshot_sorted_by_area [of "[]"] show ?thesis
    by blast
qed

subsection \<open>Publishing and resetting flags\<close>

lemma everyTypeMatches_iff:
  "length tys = length prev \<Longrightarrow> everyTypeMatches tys prev \<longleftrightarrow> map flag_type prev = tys"
proof -
  assume len: "length tys = length prev"
  have "everyTypeMatches tys prev
        \<longleftrightarrow> (\<forall>i < length tys. flag_type (prev ! i) = tys ! i)"
    unfolding everyTypeMatches_def list_all_length
    using len by simp
  also have "\<dots> \<longleftrightarrow> map flag_type prev = tys"
    using len by (simp add: list_eq_iff_nth_eq eq_commute)
  finally show ?thesis .
qed

lemma updater_Same_iff:
  "updateFlags_updater types timestamp prev = Same
   \<longleftrightarrow> prioritizedTypes types = map flag_type prev"
  using everyTypeMatches_iff [of "prioritizedTypes types" prev]
  by (auto simp: updateFlags_updater_def)

lemma previousByType_Some:
  "previousByType prev ty = Some f \<Longrightarrow> f \<in> set prev \<and> flag_type f = ty"
  by (auto simp: previousByType_def dest!: map_of_SomeD)

lemma previousByType_None:
  "previousByType prev ty = None \<longleftrightarrow> ty \<notin> flag_type ` set prev"
  by (auto simp: previousByType_def map_of_eq_None_iff image_iff)

text \<open>
  C3. The publish step \<open>updateFlags\<close>. When the new list of types in priority order
  equals the types of the published flags, in the same order, the published array is kept
  as it is (the same array, hence the same flags with the same \<open>since\<close>). Otherwise a
  new array is published that has the new types in priority order; each of its flags whose
  type was published before is one of the flags published before, and each other flag is
  new, with the message of its type and \<open>since\<close> equal to the timestamp of this cycle.
\<close>

theorem C3_publish_step:
  "(prioritizedTypes types = map flag_type (flags s) \<longrightarrow>
      flags (updateFlags types timestamp s) = flags s
      \<and> flagsVersion (updateFlags types timestamp s) = flagsVersion s)
   \<and> (prioritizedTypes types \<noteq> map flag_type (flags s) \<longrightarrow>
      map flag_type (flags (updateFlags types timestamp s)) = prioritizedTypes types
      \<and> flagsVersion (updateFlags types timestamp s) = Suc (flagsVersion s)
      \<and> (\<forall>flag \<in> set (flags (updateFlags types timestamp s)).
            if flag_type flag \<in> flag_type ` set (flags s)
            then flag \<in> set (flags s)
            else flag = \<lparr>flag_type = flag_type flag,
                         message = FLAG_MESSAGES (flag_type flag),
                         since = timestamp\<rparr>))"
proof (intro conjI impI)
  assume same: "prioritizedTypes types = map flag_type (flags s)"
  then have "updateFlags_updater types timestamp (flags s) = Same"
    by (simp add: updater_Same_iff)
  then show "flags (updateFlags types timestamp s) = flags s"
    and "flagsVersion (updateFlags types timestamp s) = flagsVersion s"
    by (simp_all add: updateFlags_def setFlags_def)
next
  assume "prioritizedTypes types \<noteq> map flag_type (flags s)"
  then have neq: "updateFlags_updater types timestamp (flags s) \<noteq> Same"
    by (simp add: updater_Same_iff)
  define build where "build = (\<lambda>ty.
             case previousByType (flags s) ty of
               Some existing \<Rightarrow> existing
             | None \<Rightarrow> \<lparr>flag_type = ty, message = FLAG_MESSAGES ty, since = timestamp\<rparr>)"
  from neq have upd: "updateFlags_updater types timestamp (flags s)
      = Fresh (map build (prioritizedTypes types))"
    by (auto simp: updateFlags_updater_def build_def split: if_splits)
  then have fl: "flags (updateFlags types timestamp s) = map build (prioritizedTypes types)"
    by (simp add: updateFlags_def setFlags_def)
  have ty: "flag_type (build ty) = ty" for ty
    by (auto simp: build_def dest: previousByType_Some split: option.splits)
  show "map flag_type (flags (updateFlags types timestamp s)) = prioritizedTypes types"
    by (simp add: fl ty comp_def)
  show "flagsVersion (updateFlags types timestamp s) = Suc (flagsVersion s)"
    using upd by (simp add: updateFlags_def setFlags_def)
  show "\<forall>flag \<in> set (flags (updateFlags types timestamp s)).
            if flag_type flag \<in> flag_type ` set (flags s)
            then flag \<in> set (flags s)
            else flag = \<lparr>flag_type = flag_type flag,
                         message = FLAG_MESSAGES (flag_type flag),
                         since = timestamp\<rparr>"
  proof
    fix flag assume "flag \<in> set (flags (updateFlags types timestamp s))"
    then obtain t where flag: "flag = build t"
      by (auto simp: fl)
    show "if flag_type flag \<in> flag_type ` set (flags s)
            then flag \<in> set (flags s)
            else flag = \<lparr>flag_type = flag_type flag,
                         message = FLAG_MESSAGES (flag_type flag),
                         since = timestamp\<rparr>"
    proof (cases "previousByType (flags s) t")
      case None
      then have "t \<notin> flag_type ` set (flags s)"
        by (simp add: previousByType_None)
      moreover have "build t = \<lparr>flag_type = t, message = FLAG_MESSAGES t, since = timestamp\<rparr>"
        using None by (simp add: build_def)
      ultimately show ?thesis
        by (simp add: flag)
    next
      case (Some f)
      then have "f \<in> set (flags s)" "flag_type f = t"
        by (auto dest: previousByType_Some)
      moreover have "build t = f"
        using Some by (simp add: build_def)
      ultimately show ?thesis
        by (auto simp: flag)
    qed
  qed
qed

theorem C3_publish_step_witness:
  "flags (updateFlags [multiple_faces_detected] 900
       (hookInitial\<lparr>flags := [\<lparr>flag_type = multiple_faces_detected,
           message = FLAG_MESSAGES multiple_faces_detected, since = 100\<rparr>]\<rparr>))
     = [\<lparr>flag_type = multiple_faces_detected,
           message = FLAG_MESSAGES multiple_faces_detected, since = 100\<rparr>]
   \<and> map flag_type (flags (updateFlags [face_near_frame_edge, multiple_faces_detected] 900
       (hookInitial\<lparr>flags := [\<lparr>flag_type = multiple_faces_detected,
           message = FLAG_MESSAGES multiple_faces_detected, since = 100\<rparr>]\<rparr>)))
     = [multiple_faces_detected, face_near_frame_edge]"
proof -
  let ?s = "hookInitial\<lparr>flags := [\<lparr>flag_type = multiple_faces_detected,
           message = FLAG_MESSAGES multiple_faces_detected, since = 100\<rparr>]\<rparr>"
  have same: "prioritizedTypes [multiple_faces_detected] = map flag_type (flags ?s)"
    by (simp add: prioritizedTypes_def FLAG_PRIORITY_def)
  have other: "prioritizedTypes [face_near_frame_edge, multiple_faces_detected]
               = [multiple_faces_detected, face_near_frame_edge]"
    by (simp add: prioritizedTypes_def FLAG_PRIORITY_def)
  then have differs: "prioritizedTypes [face_near_frame_edge, multiple_faces_detected]
               \<noteq> map flag_type (flags ?s)"
    by simp
  from C3_publish_step [of "[multiple_faces_detected]" ?s 900] same
  have "flags (updateFlags [multiple_faces_detected] 900 ?s) = flags ?s"
    by blast
  moreover
  from C3_publish_step [of "[face_near_frame_edge, multiple_faces_detected]" ?s 900] differs
  have "map flag_type (flags (updateFlags [face_near_frame_edge, multiple_faces_detected] 900 ?s))
        = prioritizedTypes [face_near_frame_edge, multiple_faces_detected]"
    by blast
  ultimately show ?thesis
    by (simp add: other)
qed

text \<open>
  C10. \<open>resetFlags\<close> is idempotent. When no flag is published it keeps the published
  array (the same array, so no new state is published), it clears both timers in any case,
  and resetting twice is resetting once.
\<close>

theorem C10_reset_idempotent:
  "(flags s = [] \<longrightarrow>
      flags (resetFlags s) = flags s \<and> flagsVersion (resetFlags s) = flagsVersion s)
   \<and> noFaceSinceRef (resetFlags s) = None
   \<and> edgeSinceRef (resetFlags s) = None
   \<and> resetFlags (resetFlags s) = resetFlags s"
  by (simp add: resetFlags_def setFlags_def resetFlags_updater_def)

theorem C10_reset_idempotent_witness:
  "flags (resetFlags hookInitial) = [] \<and> flagsVersion (resetFlags hookInitial) = 0"
proof -
  have "flags hookInitial = []"
    by (simp add: hookInitial_def)
  with C10_reset_idempotent [of hookInitial]
  have "flags (resetFlags hookInitial) = flags hookInitial
        \<and> flagsVersion (resetFlags hookInitial) = flagsVersion hookInitial"
    by blast
  then show ?thesis
    by (simp add: hookInitial_def)
qed

subsection \<open>Runs of runDetection that evaluate nothing\<close>

lemma resetFlags_cleared:
  "flags (resetFlags s) = [] \<and> noFaceSinceRef (resetFlags s) = None
   \<and> edgeSinceRef (resetFlags s) = None"
  by (cases "flags s") (simp_all add: resetFlags_def setFlags_def resetFlags_updater_def)

lemma scheduleDetection_fields:
  "flags (scheduleDetection s) = flags s"
  "flagsVersion (scheduleDetection s) = flagsVersion s"
  "noFaceSinceRef (scheduleDetection s) = noFaceSinceRef s"
  "edgeSinceRef (scheduleDetection s) = edgeSinceRef s"
  "detectCalls (scheduleDetection s) = detectCalls s"
  "pendingTimeouts (scheduleDetection s) = pendingTimeouts s @ [Suc (lastTimeoutId s)]"
  by (simp_all add: scheduleDetection_def Let_def)

lemma monitoring_eq:
  "monitoring =
     \<lparr>flags = [], flagsVersion = 0, error = None, isMonitoring = True,
      detectorAvailable = True, detectorSource = Some native,
      detectorRef = Some \<lparr>source = native, dispose = False\<rparr>,
      videoRef = Some \<lparr>srcObject = Some 1, readyState = 0, videoWidth = 0, videoHeight = 0\<rparr>,
      detectionTimerRef = Some 1, mediaStreamSubRef = Some 0,
      noFaceSinceRef = None, edgeSinceRef = None, isCancelled = False,
      pendingTimeouts = [1], lastTimeoutId = 1, disposeCalls = 0, detectCalls = 0\<rparr>"
  by (simp add: monitoring_def initialize_resume_def effectStart_def hookInitial_def
      attachStream_def scheduleDetection_def Let_def)

text \<open>
  C4. A run of \<open>runDetection\<close> that finds no stream bound to the video element, and a
  run whose evaluation yields no candidate flag, both end in \<open>resetFlags\<close>: no flag is
  published afterwards and both timers (\<open>noFaceSinceRef\<close>, \<open>edgeSinceRef\<close>) are
  cleared.
\<close>

theorem C4_reset_clears_flags_and_timers:
  "(videoRef s = Some video \<and> \<not> isCancelled s \<and> detectorRef s \<noteq> None
      \<and> srcObject video = None \<longrightarrow>
        runDetection outcome now s = scheduleDetection (resetFlags s)
        \<and> flags (runDetection outcome now s) = []
        \<and> noFaceSinceRef (runDetection outcome now s) = None
        \<and> edgeSinceRef (runDetection outcome now s) = None)
   \<and> (evaluateFaces faces now s = Inr ([], s1) \<longrightarrow>
        runDetection_resume (Resolved faces) now s = scheduleDetection (resetFlags s1)
        \<and> flags (runDetection_resume (Resolved faces) now s) = []
        \<and> noFaceSinceRef (runDetection_resume (Resolved faces) now s) = None
        \<and> edgeSinceRef (runDetection_resume (Resolved faces) now s) = None)"
proof (intro conjI impI)
  assume live: "videoRef s = Some video \<and> \<not> isCancelled s \<and> detectorRef s \<noteq> None
      \<and> srcObject video = None"
  then show run: "runDetection outcome now s = scheduleDetection (resetFlags s)"
    by (auto simp: runDetection_def runDetection_start_def)
  show "flags (runDetection outcome now s) = []"
    and "noFaceSinceRef (runDetection outcome now s) = None"
    and "edgeSinceRef (runDetection outcome now s) = None"
    by (simp_all add: run scheduleDetection_fields resetFlags_cleared)
next
  assume none: "evaluateFaces faces now s = Inr ([], s1)"
  then show res: "runDetection_resume (Resolved faces) now s = scheduleDetection (resetFlags s1)"
    by (simp add: runDetection_resume_def)
  show "flags (runDetection_resume (Resolved faces) now s) = []"
    and "noFaceSinceRef (runDetection_resume (Resolved faces) now s) = None"
    and "edgeSinceRef (runDetection_resume (Resolved faces) now s) = None"
    by (simp_all add: res scheduleDetection_fields resetFlags_cleared)
qed

theorem C4_reset_clears_flags_and_timers_witness:
  "flags (runDetection (Resolved []) 1000
       (monitoring\<lparr>videoRef := Some \<lparr>srcObject = None, readyState = 0,
                                       videoWidth = 0, videoHeight = 0\<rparr>,
                   edgeSinceRef := Some 10\<rparr>)) = []
   \<and> edgeSinceRef (runDetection (Resolved []) 1000
       (monitoring\<lparr>videoRef := Some \<lparr>srcObject = None, readyState = 0,
                                       videoWidth = 0, videoHeight = 0\<rparr>,
                   edgeSinceRef := Some 10\<rparr>)) = None
   \<and> noFaceSinceRef (runDetection_resume (Resolved []) 1000 monitoring) = None"
proof -
  let ?v = "\<lparr>srcObject = None, readyState = 0, videoWidth = 0, videoHeight = 0\<rparr>"
  let ?s = "monitoring\<lparr>videoRef := Some ?v, edgeSinceRef := Some 10\<rparr>"
  have "videoRef ?s = Some ?v \<and> \<not> isCancelled ?s \<and> detectorRef ?s \<noteq> None
        \<and> srcObject ?v = None"
    by (simp add: monitoring_eq)
  with C4_reset_clears_flags_and_timers [of ?s ?v "Resolved []" 1000]
  have a: "flags (runDetection (Resolved []) 1000 ?s) = []
           \<and> edgeSinceRef (runDetection (Resolved []) 1000 ?s) = None"
    by blast
  have "evaluateFaces [] 1000 monitoring
        = Inr ([], monitoring\<lparr>noFaceSinceRef := Some 1000, edgeSinceRef := None\<rparr>)"
    by (simp add: evaluateFaces_def orderedFaces_def monitoring_eq NO_FACE_THRESHOLD_MS_def)
  with C4_reset_clears_flags_and_timers [of monitoring _ _ 1000 "[]"]
  have b: "noFaceSinceRef (runDetection_resume (Resolved []) 1000 monitoring) = None"
    by blast
  from a b show ?thesis
    by blast
qed

text \<open>
  C9, as the code has it. A run of \<open>runDetection\<close> that finds a stream bound but no
  frame data yet (\<open>readyState < 2\<close>) or a zero \<open>videoWidth\<close> only schedules the
  next run: the adapter is not asked to detect, and the flags and both timers stay as they
  are. The height is not looked at: with a stream bound, frame data at hand and a
  \<open>videoWidth\<close> that is not zero, the run asks the adapter to detect and goes on with
  the continuation, whatever \<open>videoHeight\<close> is.
\<close>

theorem C9_skip_when_frame_not_ready:
  "(videoRef s = Some video \<and> \<not> isCancelled s \<and> detectorRef s \<noteq> None
     \<and> srcObject video \<noteq> None \<and> (readyState video < 2 \<or> videoWidth video = 0) \<longrightarrow>
       runDetection_start s = Returned (scheduleDetection s)
       \<and> runDetection outcome now s = scheduleDetection s
       \<and> detectCalls (runDetection outcome now s) = detectCalls s
       \<and> flags (runDetection outcome now s) = flags s
       \<and> flagsVersion (runDetection outcome now s) = flagsVersion s
       \<and> noFaceSinceRef (runDetection outcome now s) = noFaceSinceRef s
       \<and> edgeSinceRef (runDetection outcome now s) = edgeSinceRef s
       \<and> pendingTimeouts (runDetection outcome now s)
           = pendingTimeouts s @ [Suc (lastTimeoutId s)])
   \<and> (videoRef s = Some video \<and> \<not> isCancelled s \<and> detectorRef s \<noteq> None
     \<and> srcObject video \<noteq> None \<and> \<not> readyState video < 2 \<and> videoWidth video \<noteq> 0 \<longrightarrow>
       runDetection_start s = AwaitingDetect (s\<lparr>detectCalls := Suc (detectCalls s)\<rparr>)
       \<and> runDetection outcome now s
           = runDetection_resume outcome now (s\<lparr>detectCalls := Suc (detectCalls s)\<rparr>))"
proof (intro conjI impI)
  assume a: "videoRef s = Some video \<and> \<not> isCancelled s \<and> detectorRef s \<noteq> None
     \<and> srcObject video \<noteq> None \<and> (readyState video < 2 \<or> videoWidth video = 0)"
  then show start: "runDetection_start s = Returned (scheduleDetection s)"
    by (auto simp: runDetection_start_def)
  then show run: "runDetection outcome now s = scheduleDetection s"
    by (simp add: runDetection_def)
  show "detectCalls (runDetection outcome now s) = detectCalls s"
    and "flags (runDetection outcome now s) = flags s"
    and "flagsVersion (runDetection outcome now s) = flagsVersion s"
    and "noFaceSinceRef (runDetection outcome now s) = noFaceSinceRef s"
    and "edgeSinceRef (runDetection outcome now s) = edgeSinceRef s"
    and "pendingTimeouts (runDetection outcome now s)
           = pendingTimeouts s @ [Suc (lastTimeoutId s)]"
    by (simp_all add: run scheduleDetection_fields)
next
  assume b: "videoRef s = Some video \<and> \<not> isCancelled s \<and> detectorRef s \<noteq> None
     \<and> srcObject video \<noteq> None \<and> \<not> readyState video < 2 \<and> videoWidth video \<noteq> 0"
  then show start: "runDetection_start s
      = AwaitingDetect (s\<lparr>detectCalls := Suc (detectCalls s)\<rparr>)"
    by (auto simp: runDetection_start_def)
  then show "runDetection outcome now s
      = runDetection_resume outcome now (s\<lparr>detectCalls := Suc (detectCalls s)\<rparr>)"
    by (simp add: runDetection_def)
qed

theorem C9_skip_when_frame_not_ready_witness:
  "detectCalls (runDetection (Resolved []) 1000 monitoring) = 0
   \<and> pendingTimeouts (runDetection (Resolved []) 1000 monitoring) = [1, 2]
   \<and> runDetection_start
        (monitoring\<lparr>videoRef :=
           Some \<lparr>srcObject = Some 1, readyState = 2, videoWidth = 320, videoHeight = 0\<rparr>\<rparr>)
      = AwaitingDetect
        (monitoring\<lparr>videoRef :=
           Some \<lparr>srcObject = Some 1, readyState = 2, videoWidth = 320, videoHeight = 0\<rparr>,
           detectCalls := 1\<rparr>)"
proof -
  let ?blank = "\<lparr>srcObject = Some 1, readyState = 0, videoWidth = 0, videoHeight = 0\<rparr>"
  let ?flat = "\<lparr>srcObject = Some 1, readyState = 2, videoWidth = 320, videoHeight = 0\<rparr>"
  let ?s = "monitoring\<lparr>videoRef := Some ?flat\<rparr>"
  have "videoRef monitoring = Some ?blank
        \<and> \<not> isCancelled monitoring \<and> detectorRef monitoring \<noteq> None
        \<and> srcObject ?blank \<noteq> None
        \<and> (readyState ?blank < 2 \<or> videoWidth ?blank = 0)"
    by (simp add: monitoring_eq)
  with C9_skip_when_frame_not_ready [of monitoring ?blank "Resolved []" 1000]
  have "detectCalls (runDetection (Resolved []) 1000 monitoring) = detectCalls monitoring
        \<and> pendingTimeouts (runDetection (Resolved []) 1000 monitoring)
           = pendingTimeouts monitoring @ [Suc (lastTimeoutId monitoring)]"
    by blast
  then have skipped: "detectCalls (runDetection (Resolved []) 1000 monitoring) = 0
        \<and> pendingTimeouts (runDetection (Resolved []) 1000 monitoring) = [1, 2]"
    by (simp add: monitoring_eq)
  have "videoRef ?s = Some ?flat \<and> \<not> isCancelled ?s \<and> detectorRef ?s \<noteq> None
        \<and> srcObject ?flat \<noteq> None \<and> \<not> readyState ?flat < 2 \<and> videoWidth ?flat \<noteq> 0"
    by (simp add: monitoring_eq)
  with C9_skip_when_frame_not_ready [of ?s ?flat]
  have "runDetection_start ?s = AwaitingDetect (?s\<lparr>detectCalls := Suc (detectCalls ?s)\<rparr>)"
    by blast
  then have "runDetection_start ?s = AwaitingDetect (?s\<lparr>detectCalls := 1\<rparr>)"
    by (simp add: monitoring_eq)
  with skipped show ?thesis
    by blast
qed

text \<open>
  C9 as stated also skips the run when the height alone is zero. With a frame at hand, a
  width of 640 and a height of 0, \<open>runDetection\<close> does ask the adapter to detect.
\<close>

theorem C9_zero_height_counterexample:
  "videoHeight \<lparr>srcObject = Some 1, readyState = 4, videoWidth = 640, videoHeight = 0\<rparr> = 0
   \<and> runDetection_start
        (monitoring\<lparr>videoRef :=
           Some \<lparr>srcObject = Some 1, readyState = 4, videoWidth = 640, videoHeight = 0\<rparr>\<rparr>)
      = AwaitingDetect
        (monitoring\<lparr>videoRef :=
           Some \<lparr>srcObject = Some 1, readyState = 4, videoWidth = 640, videoHeight = 0\<rparr>,
           detectCalls := 1\<rparr>)"
  by (simp add: monitoring_eq runDetection_start_def)

subsection \<open>A failing detector\<close>

lemma stopLoop_fields:
  "detectorRef (stopLoop s) = None"
  "videoRef (stopLoop s) = None"
  "noFaceSinceRef (stopLoop s) = None"
  "edgeSinceRef (stopLoop s) = None"
  "flags (stopLoop s) = flags s"
  "error (stopLoop s) = error s"
  "isMonitoring (stopLoop s) = isMonitoring s"
  "set (pendingTimeouts (stopLoop s)) \<subseteq> set (pendingTimeouts s)"
  "pendingTimeouts s = [] \<Longrightarrow> pendingTimeouts (stopLoop s) = []"
  by (auto simp: stopLoop_def Let_def split: option.splits)

lemma resetFlags_fields:
  "error (resetFlags s) = error s"
  "isMonitoring (resetFlags s) = isMonitoring s"
  "detectorAvailable (resetFlags s) = detectorAvailable s"
  "detectorSource (resetFlags s) = detectorSource s"
  "detectorRef (resetFlags s) = detectorRef s"
  "videoRef (resetFlags s) = videoRef s"
  "pendingTimeouts (resetFlags s) = pendingTimeouts s"
  "isCancelled (resetFlags s) = isCancelled s"
  by (simp_all add: resetFlags_def setFlags_def split: updated.splits)

lemma runTicks_nothing_pending:
  "pendingTimeouts s = [] \<Longrightarrow> runTicks ticks s = s"
  by (induction ticks) (simp_all add: fireTimeout_def)

lemma runDetection_without_detector:
  "detectorRef s = None \<Longrightarrow> runDetection outcome now s = s"
  by (simp add: runDetection_def runDetection_start_def split: option.splits)

lemma detectionFailed_fields:
  "detectorAvailable (detectionFailed err s) = False"
  "detectorSource (detectionFailed err s) = None"
  "error (detectionFailed err s) =
     Some (case err of ErrorObject msg \<Rightarrow> msg
                     | OtherValue \<Rightarrow> ''Face detection failed unexpectedly.'')"
  "isMonitoring (detectionFailed err s) = False"
  "detectorRef (detectionFailed err s) = None"
  "set (pendingTimeouts (detectionFailed err s)) \<subseteq> set (pendingTimeouts s)"
  "pendingTimeouts s = [] \<Longrightarrow> pendingTimeouts (detectionFailed err s) = []"
       apply (simp_all add: detectionFailed_def Let_def resetFlags_fields stopLoop_fields)
  subgoal using stopLoop_fields(8) [of "s\<lparr>error := Some (case err of ErrorObject msg \<Rightarrow> msg
                     | OtherValue \<Rightarrow> ''Face detection failed unexpectedly.''), isMonitoring := False\<rparr>"]
    by simp
  done

text \<open>
  C6. When the promise of \<open>detect\<close> is rejected and \<open>isCancelled\<close> is false at that
  moment, the continuation of \<open>runDetection\<close> sets \<open>detectorAvailable\<close> to false,
  clears \<open>detectorSource\<close>, sets \<open>error\<close>, sets \<open>isMonitoring\<close> to false, clears
  the flags and both timers, and drops the adapter. It schedules no timeout: the pending
  timeouts are among those pending before, so with none pending before none is pending
  after and no further tick changes the state. Since the adapter is gone, no later run of
  \<open>runDetection\<close> does anything: there is no retry.
\<close>

theorem C6_detect_failure_stops_loop:
  "\<not> isCancelled s \<longrightarrow>
     (let s' = runDetection_resume (Rejected err) now s
      in detectorAvailable s' = False
         \<and> detectorSource s' = None
         \<and> error s' = Some (case err of ErrorObject msg \<Rightarrow> msg
                                     | OtherValue \<Rightarrow> ''Face detection failed unexpectedly.'')
         \<and> isMonitoring s' = False
         \<and> flags s' = [] \<and> noFaceSinceRef s' = None \<and> edgeSinceRef s' = None
         \<and> detectorRef s' = None
         \<and> set (pendingTimeouts s') \<subseteq> set (pendingTimeouts s)
         \<and> (pendingTimeouts s = [] \<longrightarrow>
              pendingTimeouts s' = [] \<and> (\<forall>ticks. runTicks ticks s' = s'))
         \<and> (\<forall>outcome' now'. runDetection outcome' now' s' = s'))"
proof
  assume live: "\<not> isCancelled s"
  then have res: "runDetection_resume (Rejected err) now s = detectionFailed err s"
    by (simp add: runDetection_resume_def)
  have cleared: "flags (detectionFailed err s) = [] \<and> noFaceSinceRef (detectionFailed err s) = None
      \<and> edgeSinceRef (detectionFailed err s) = None"
    unfolding detectionFailed_def Let_def by (rule resetFlags_cleared)
  show "let s' = runDetection_resume (Rejected err) now s
      in detectorAvailable s' = False
         \<and> detectorSource s' = None
         \<and> error s' = Some (case err of ErrorObject msg \<Rightarrow> msg
                                     | OtherValue \<Rightarrow> ''Face detection failed unexpectedly.'')
         \<and> isMonitoring s' = False
         \<and> flags s' = [] \<and> noFaceSinceRef s' = None \<and> edgeSinceRef s' = None
         \<and> detectorRef s' = None
         \<and> set (pendingTimeouts s') \<subseteq> set (pendingTimeouts s)
         \<and> (pendingTimeouts s = [] \<longrightarrow>
              pendingTimeouts s' = [] \<and> (\<forall>ticks. runTicks ticks s' = s'))
         \<and> (\<forall>outcome' now'. runDetection outcome' now' s' = s')"
    unfolding Let_def res
    using cleared
    by (simp add: detectionFailed_fields runTicks_nothing_pending runDetection_without_detector)
qed

theorem C6_detect_failure_stops_loop_witness:
  "detectorAvailable
     (runDetection_resume (Rejected (ErrorObject ''model crashed'')) 1000
        (monitoring\<lparr>pendingTimeouts := [], videoRef := Some readyVideo, detectCalls := 1\<rparr>))
     = False
   \<and> pendingTimeouts
     (runDetection_resume (Rejected (ErrorObject ''model crashed'')) 1000
        (monitoring\<lparr>pendingTimeouts := [], videoRef := Some readyVideo, detectCalls := 1\<rparr>))
     = []
   \<and> fireTimeout \<lparr>tick_video = readyVideo,
                   tick_outcome = Rejected (ErrorObject ''model crashed''),
                   tick_now = 1000\<rparr> monitoring
     = runDetection_resume (Rejected (ErrorObject ''model crashed'')) 1000
        (monitoring\<lparr>pendingTimeouts := [], videoRef := Some readyVideo, detectCalls := 1\<rparr>)"
proof -
  let ?s = "monitoring\<lparr>pendingTimeouts := [], videoRef := Some readyVideo, detectCalls := 1\<rparr>"
  let ?r = "runDetection_resume (Rejected (ErrorObject ''model crashed'')) 1000 ?s"
  have live: "\<not> isCancelled ?s" and none: "pendingTimeouts ?s = []"
    by (simp_all add: monitoring_eq)
  from C6_detect_failure_stops_loop [of ?s "ErrorObject ''model crashed''" 1000] live
  have "detectorAvailable ?r = False
        \<and> (pendingTimeouts ?s = [] \<longrightarrow> pendingTimeouts ?r = [] \<and> (\<forall>ticks. runTicks ticks ?r = ?r))"
    unfolding Let_def by blast
  with none have "detectorAvailable ?r = False \<and> pendingTimeouts ?r = []"
    by blast
  moreover have "fireTimeout \<lparr>tick_video = readyVideo,
                   tick_outcome = Rejected (ErrorObject ''model crashed''),
                   tick_now = 1000\<rparr> monitoring = ?r"
    by (simp add: fireTimeout_def runDetection_def runDetection_start_def monitoring_eq
        readyVideo_def)
  ultimately show ?thesis
    by blast
qed

subsection \<open>Resolving a detector\<close>

text \<open>
  C7, as the code has it. When \<open>nativeDetectorSupported\<close> holds, \<open>resolveDetector\<close>
  settles at once with what constructing the native detector gives: a native adapter when
  the construction returns, the thrown value when it throws. In both cases the
  module-level state stays as it was: \<open>ensureTfModules\<close> is not called, no promise is
  created, nothing is imported and no backend is tried.
\<close>

theorem C7_native_never_initializes_fallback:
  "nativeDetectorSupported b \<longrightarrow>
     resolveDetector b g
       = (Settled (case construction b of
                     Some err \<Rightarrow> Inl err
                   | None \<Rightarrow> Inr \<lparr>source = native, dispose = False\<rparr>), g)
     \<and> (construction b = None \<longrightarrow>
          resolveDetector b g = (Settled (Inr \<lparr>source = native, dispose = False\<rparr>), g))
     \<and> (\<forall>err. construction b = Some err \<longrightarrow>
          resolveDetector b g = (Settled (Inl err), g))
     \<and> tfModulesPromise (snd (resolveDetector b g)) = tfModulesPromise g
     \<and> promises (snd (resolveDetector b g)) = promises g
     \<and> effects (snd (resolveDetector b g)) = effects g"
  by (simp add: resolveDetector_def nativeDetectorSupported_def createNativeAdapter_def)

theorem C7_native_never_initializes_fallback_witness:
  "resolveDetector
     \<lparr>hasWindow = True, FaceDetector = constructor, construction = None,
      importResolves = (\<lambda>m. False),
      backendResolves = (\<lambda>c. False), createDetectorResolves = (\<lambda>r. False)\<rparr>
     \<lparr>tfModulesPromise = None, promises = [], effects = []\<rparr>
   = (Settled (Inr \<lparr>source = native, dispose = False\<rparr>),
      \<lparr>tfModulesPromise = None, promises = [], effects = []\<rparr>)
   \<and> effects (snd (resolveDetector
     \<lparr>hasWindow = True, FaceDetector = constructor,
      construction = Some (ErrorObject ''construction failed''),
      importResolves = (\<lambda>m. True),
      backendResolves = (\<lambda>c. True), createDetectorResolves = (\<lambda>r. True)\<rparr>
     \<lparr>tfModulesPromise = None, promises = [], effects = []\<rparr>)) = []"
proof -
  let ?ok = "\<lparr>hasWindow = True, FaceDetector = constructor, construction = None,
      importResolves = (\<lambda>m. False),
      backendResolves = (\<lambda>c. False), createDetectorResolves = (\<lambda>r. False)\<rparr>"
  let ?throwing = "\<lparr>hasWindow = True, FaceDetector = constructor,
      construction = Some (ErrorObject ''construction failed''),
      importResolves = (\<lambda>m. True),
      backendResolves = (\<lambda>c. True), createDetectorResolves = (\<lambda>r. True)\<rparr>"
  let ?g = "\<lparr>tfModulesPromise = None, promises = [], effects = []\<rparr>"
  have ok: "nativeDetectorSupported ?ok" and returns: "construction ?ok = None"
    by (simp_all add: nativeDetectorSupported_def)
  have throwing: "nativeDetectorSupported ?throwing"
    by (simp add: nativeDetectorSupported_def)
  from C7_native_never_initializes_fallback [of ?ok ?g] ok returns
  have "resolveDetector ?ok ?g = (Settled (Inr \<lparr>source = native, dispose = False\<rparr>), ?g)"
    by blast
  moreover
  from C7_native_never_initializes_fallback [of ?throwing ?g] throwing
  have "effects (snd (resolveDetector ?throwing ?g)) = effects ?g"
    by blast
  ultimately show ?thesis
    by simp
qed

text \<open>
  C7 as stated has \<open>resolveDetector\<close> return a native adapter whenever the native
  capability is present. The capability test only asks whether \<open>window.FaceDetector\<close>
  is a function; when constructing it throws, \<open>resolveDetector\<close> settles with the
  thrown value and returns no adapter, although the fallback would be available.
\<close>

theorem C7_construction_throws_counterexample:
  "nativeDetectorSupported
     \<lparr>hasWindow = True, FaceDetector = constructor,
      construction = Some (ErrorObject ''construction failed''),
      importResolves = (\<lambda>m. True),
      backendResolves = (\<lambda>c. True), createDetectorResolves = (\<lambda>r. True)\<rparr>
   \<and> resolveDetector
     \<lparr>hasWindow = True, FaceDetector = constructor,
      construction = Some (ErrorObject ''construction failed''),
      importResolves = (\<lambda>m. True),
      backendResolves = (\<lambda>c. True), createDetectorResolves = (\<lambda>r. True)\<rparr>
     \<lparr>tfModulesPromise = None, promises = [], effects = []\<rparr>
   = (Settled (Inl (ErrorObject ''construction failed'')),
      \<lparr>tfModulesPromise = None, promises = [], effects = []\<rparr>)"
  by (simp add: resolveDetector_def nativeDetectorSupported_def createNativeAdapter_def)

lemma tryBackends_candidates:
  "tryBackends b candidateBackends =
     (if backendResolves b webgl then (Some webgl, [SetBackend webgl])
      else if backendResolves b cpu then (Some cpu, [SetBackend webgl, SetBackend cpu])
      else (None, [SetBackend webgl, SetBackend cpu]))"
  by (simp add: candidateBackends_def)

lemma loadTfModules_no_backend:
  "\<not> backendResolves b webgl \<Longrightarrow> \<not> backendResolves b cpu \<Longrightarrow> \<exists>err. fst (loadTfModules b) = Inl err"
  by (simp add: loadTfModules_def tryBackends_candidates Let_def)

lemma loadTfModules_backend:
  "fst (loadTfModules b) = Inr modules \<Longrightarrow>
     fst (tryBackends b candidateBackends) = Some (backendInitialized modules)"
  by (auto simp: loadTfModules_def Let_def split: if_splits prod.splits option.splits)

lemma ensureTfModules_memo:
  assumes "ensureTfModules g = (p, g1)"
  shows "tfModulesPromise g1 = Some p" and "ensureTfModules g1 = (p, g1)"
    and "tfModulesPromise g \<noteq> None \<Longrightarrow> g1 = g"
    and "tfModulesPromise g = None \<Longrightarrow> promises g1 = promises g @ [pending]"
  using assms by (auto simp: ensureTfModules_def Let_def split: option.splits)

lemma settle_failure:
  assumes "p < length (promises g)" "promises g ! p = pending" "fst (loadTfModules b) = Inl err"
  shows "tfModulesPromise (settleTfModules b p g) = None"
    and "promises (settleTfModules b p g) = (promises g)[p := rejected err]"
  using assms by (auto simp: settleTfModules_def split: prod.splits sum.splits)

lemma settle_success:
  assumes "p < length (promises g)" "promises g ! p = pending" "fst (loadTfModules b) = Inr modules"
  shows "tfModulesPromise (settleTfModules b p g) = tfModulesPromise g"
    and "promises (settleTfModules b p g) = (promises g)[p := fulfilled modules]"
  using assms by (auto simp: settleTfModules_def split: prod.splits sum.splits)

lemma retry_after_failure:
  assumes "p < length (promises g)" "promises g ! p = pending" "fst (loadTfModules b) = Inl err"
    and "ensureTfModules (settleTfModules b p g) = (p', g')"
  shows "p' \<noteq> p" and "p' < length (promises g')" and "promises g' ! p' = pending"
    and "tfModulesPromise g' = Some p'" and "promises g' ! p = rejected err"
  using assms settle_failure [OF assms(1-3)]
  by (auto simp: ensureTfModules_def Let_def nth_append)

text \<open>
  C8. The memo of \<open>ensureTfModules\<close>.
  \<^item> A call returns the stored promise and leaves it stored, so the next call returns the
    same promise and changes nothing; a promise (an initialisation) is created only by a
    call that finds no memo.
  \<^item> When the initialisation behind a pending promise fails, the memo is cleared and the
    promise rejected; the next call creates another promise, pending again.
  \<^item> When it succeeds the memo stays and the promise is fulfilled.
  \<^item> The backends are tried in the order webgl, cpu; the first that resolves is the one
    initialised and ends the attempts; with neither the initialisation fails; and the
    modules of a fulfilled promise carry the backend so chosen.
\<close>

theorem C8_memoized_runtime:
  "(ensureTfModules g = (p, g1) \<longrightarrow>
      tfModulesPromise g1 = Some p
      \<and> ensureTfModules g1 = (p, g1)
      \<and> (tfModulesPromise g \<noteq> None \<longrightarrow> g1 = g)
      \<and> (tfModulesPromise g = None \<longrightarrow> promises g1 = promises g @ [pending]))
   \<and> (q < length (promises g) \<and> promises g ! q = pending
        \<and> fst (loadTfModules b) = Inl err \<longrightarrow>
      tfModulesPromise (settleTfModules b q g) = None
      \<and> promises (settleTfModules b q g) = (promises g)[q := rejected err]
      \<and> (\<forall>q' g'. ensureTfModules (settleTfModules b q g) = (q', g') \<longrightarrow>
            q' \<noteq> q \<and> q' < length (promises g') \<and> promises g' ! q' = pending
            \<and> tfModulesPromise g' = Some q' \<and> promises g' ! q = rejected err))
   \<and> (q < length (promises g) \<and> promises g ! q = pending
        \<and> fst (loadTfModules b) = Inr modules \<longrightarrow>
      tfModulesPromise (settleTfModules b q g) = tfModulesPromise g
      \<and> promises (settleTfModules b q g) = (promises g)[q := fulfilled modules])
   \<and> tryBackends b candidateBackends =
       (if backendResolves b webgl then (Some webgl, [SetBackend webgl])
        else if backendResolves b cpu then (Some cpu, [SetBackend webgl, SetBackend cpu])
        else (None, [SetBackend webgl, SetBackend cpu]))
   \<and> (\<not> backendResolves b webgl \<and> \<not> backendResolves b cpu \<longrightarrow>
        (\<exists>e. fst (loadTfModules b) = Inl e))
   \<and> (fst (loadTfModules b) = Inr modules \<longrightarrow>
        fst (tryBackends b candidateBackends) = Some (backendInitialized modules))"
proof (intro conjI impI allI)
  assume call: "ensureTfModules g = (p, g1)"
  show "tfModulesPromise g1 = Some p" and "ensureTfModules g1 = (p, g1)"
    by (rule ensureTfModules_memo [OF call])+
  show "g1 = g" if "tfModulesPromise g \<noteq> None"
    using that by (rule ensureTfModules_memo [OF call])
  show "promises g1 = promises g @ [pending]" if "tfModulesPromise g = None"
    using that by (rule ensureTfModules_memo [OF call])
next
  assume fail: "q < length (promises g) \<and> promises g ! q = pending
        \<and> fst (loadTfModules b) = Inl err"
  then have a: "q < length (promises g)" and b: "promises g ! q = pending"
    and c: "fst (loadTfModules b) = Inl err"
    by simp_all
  show "tfModulesPromise (settleTfModules b q g) = None"
    and "promises (settleTfModules b q g) = (promises g)[q := rejected err]"
    by (rule settle_failure [OF a b c])+
  fix q' g' assume again: "ensureTfModules (settleTfModules b q g) = (q', g')"
  show "q' \<noteq> q" and "q' < length (promises g')" and "promises g' ! q' = pending"
    and "tfModulesPromise g' = Some q'" and "promises g' ! q = rejected err"
    by (rule retry_after_failure [OF a b c again])+
next
  assume ok: "q < length (promises g) \<and> promises g ! q = pending
        \<and> fst (loadTfModules b) = Inr modules"
  then show "tfModulesPromise (settleTfModules b q g) = tfModulesPromise g"
    and "promises (settleTfModules b q g) = (promises g)[q := fulfilled modules]"
    by (simp_all add: settle_success)
next
  show "tryBackends b candidateBackends =
       (if backendResolves b webgl then (Some webgl, [SetBackend webgl])
        else if backendResolves b cpu then (Some cpu, [SetBackend webgl, SetBackend cpu])
        else (None, [SetBackend webgl, SetBackend cpu]))"
    by (rule tryBackends_candidates)
next
  assume "\<not> backendResolves b webgl \<and> \<not> backendResolves b cpu"
  then show "\<exists>e. fst (loadTfModules b) = Inl e"
    by (simp add: loadTfModules_no_backend)
next
  assume "fst (loadTfModules b) = Inr modules"
  then show "fst (tryBackends b candidateBackends) = Some (backendInitialized modules)"
    by (rule loadTfModules_backend)
qed

theorem C8_memoized_runtime_witness:
  "ensureTfModules \<lparr>tfModulesPromise = Some 0, promises = [pending], effects = []\<rparr>
     = (0, \<lparr>tfModulesPromise = Some 0, promises = [pending], effects = []\<rparr>)
   \<and> tfModulesPromise
       (settleTfModules
          \<lparr>hasWindow = True, FaceDetector = absent, construction = None,
           importResolves = (\<lambda>m. True),
           backendResolves = (\<lambda>c. False), createDetectorResolves = (\<lambda>r. True)\<rparr>
          0 \<lparr>tfModulesPromise = Some 0, promises = [pending], effects = []\<rparr>) = None
   \<and> promises
       (settleTfModules
          \<lparr>hasWindow = True, FaceDetector = absent, construction = None,
           importResolves = (\<lambda>m. True),
           backendResolves = (\<lambda>c. c = cpu), createDetectorResolves = (\<lambda>r. True)\<rparr>
          0 \<lparr>tfModulesPromise = Some 0, promises = [pending], effects = []\<rparr>)
     = [fulfilled \<lparr>backendInitialized = cpu\<rparr>]
   \<and> fst (ensureTfModules
       (settleTfModules
          \<lparr>hasWindow = True, FaceDetector = absent, construction = None,
           importResolves = (\<lambda>m. True),
           backendResolves = (\<lambda>c. False), createDetectorResolves = (\<lambda>r. True)\<rparr>
          0 \<lparr>tfModulesPromise = Some 0, promises = [pending], effects = []\<rparr>)) \<noteq> 0
   \<and> fst (tryBackends
          \<lparr>hasWindow = True, FaceDetector = absent, construction = None,
           importResolves = (\<lambda>m. True),
           backendResolves = (\<lambda>c. c = cpu), createDetectorResolves = (\<lambda>r. True)\<rparr>
          candidateBackends) = Some cpu"
proof -
  let ?g0 = "\<lparr>tfModulesPromise = None, promises = [], effects = []\<rparr>"
  let ?g1 = "\<lparr>tfModulesPromise = Some 0, promises = [pending], effects = []\<rparr>"
  let ?bad = "\<lparr>hasWindow = True, FaceDetector = absent, construction = None,
           importResolves = (\<lambda>m. True),
           backendResolves = (\<lambda>c. False), createDetectorResolves = (\<lambda>r. True)\<rparr>"
  let ?good = "\<lparr>hasWindow = True, FaceDetector = absent, construction = None,
           importResolves = (\<lambda>m. True),
           backendResolves = (\<lambda>c. c = cpu), createDetectorResolves = (\<lambda>r. True)\<rparr>"
  have first: "ensureTfModules ?g0 = (0, ?g1)"
    by (simp add: ensureTfModules_def)
  have inflight: "0 < length (promises ?g1) \<and> promises ?g1 ! 0 = pending"
    by simp
  have bad: "fst (loadTfModules ?bad) = Inl (ErrorObject ''No TensorFlow backend available'')"
    by (simp add: loadTfModules_def candidateBackends_def)
  have good: "fst (loadTfModules ?good) = Inr \<lparr>backendInitialized = cpu\<rparr>"
    by (simp add: loadTfModules_def candidateBackends_def)
  from C8_memoized_runtime [where g = ?g0 and p = 0 and ?g1.0 = ?g1] first
  have "ensureTfModules ?g1 = (0, ?g1)"
    by blast
  moreover
  from C8_memoized_runtime [where g = ?g1 and q = 0 and b = ?bad
      and err = "ErrorObject ''No TensorFlow backend available''"] inflight bad
  have "tfModulesPromise (settleTfModules ?bad 0 ?g1) = None"
    by blast
  moreover
  from C8_memoized_runtime [where g = ?g1 and q = 0 and b = ?good
      and modules = "\<lparr>backendInitialized = cpu\<rparr>"] inflight good
  have "promises (settleTfModules ?good 0 ?g1)
        = (promises ?g1)[0 := fulfilled \<lparr>backendInitialized = cpu\<rparr>]"
    by blast
  moreover
  from C8_memoized_runtime [where g = ?g1 and q = 0 and b = ?bad
      and err = "ErrorObject ''No TensorFlow backend available''"] inflight bad
  have "\<forall>q' g'. ensureTfModules (settleTfModules ?bad 0 ?g1) = (q', g') \<longrightarrow> q' \<noteq> 0"
    by blast
  then have "fst (ensureTfModules (settleTfModules ?bad 0 ?g1)) \<noteq> 0"
    by (metis prod.collapse)
  moreover
  from C8_memoized_runtime [where b = ?good and modules = "\<lparr>backendInitialized = cpu\<rparr>"] good
  have "fst (tryBackends ?good candidateBackends)
        = Some (backendInitialized \<lparr>backendInitialized = cpu\<rparr>)"
    by blast
  ultimately show ?thesis
    by simp
qed

subsection \<open>The flag engine\<close>

lemma orderedFaces_Nil [simp]: "orderedFaces faces = [] \<longleftrightarrow> faces = []"
  by (metis orderedFaces_sort_key mset_sort mset_zero_iff)

lemma length_orderedFaces [simp]: "length (orderedFaces faces) = length faces"
  by (simp add: orderedFaces_sort_key)

lemma evaluateFaces_frame:
  assumes "evaluateFaces faces now s = Inr (nextFlags, s')"
  shows "isCancelled s' = isCancelled s" "detectorRef s' = detectorRef s"
    "videoRef s' = videoRef s" "pendingTimeouts s' = pendingTimeouts s"
    "flags s' = flags s" "lastTimeoutId s' = lastTimeoutId s"
  using assms
  by (auto simp: evaluateFaces_def Let_def split: list.splits option.splits if_splits)

lemma evaluateFaces_no_faces:
  "evaluateFaces [] now s =
     Inr (if now - (case noFaceSinceRef s of Some t \<Rightarrow> t | None \<Rightarrow> now) \<ge> NO_FACE_THRESHOLD_MS
          then [no_face_detected] else [],
          s\<lparr>noFaceSinceRef := (case noFaceSinceRef s of Some t \<Rightarrow> Some t | None \<Rightarrow> Some now),
            edgeSinceRef := None\<rparr>)"
  by (cases "noFaceSinceRef s") (simp_all add: evaluateFaces_def orderedFaces_def)

lemma evaluateFaces_faces:
  assumes "orderedFaces faces = primaryFace # others" and "videoRef s = Some video"
  shows "evaluateFaces faces now s =
     (if videoWidth video \<noteq> 0 \<and> videoHeight video \<noteq> 0
      then if touchesEdge (boundingBox primaryFace) (videoWidth video) (videoHeight video)
           then (case edgeSinceRef s of
                   None \<Rightarrow>
                     Inr (if length faces > 1 then [multiple_faces_detected]
                          else if (0::int) \<ge> EDGE_THRESHOLD_MS then [face_near_frame_edge] else [],
                          s\<lparr>noFaceSinceRef := None, edgeSinceRef := Some now\<rparr>)
                 | Some t \<Rightarrow>
                     Inr (if length faces > 1 then [multiple_faces_detected]
                          else if now - t \<ge> EDGE_THRESHOLD_MS then [face_near_frame_edge] else [],
                          s\<lparr>noFaceSinceRef := None\<rparr>))
           else Inr (if length faces > 1 then [multiple_faces_detected] else [],
                     s\<lparr>noFaceSinceRef := None, edgeSinceRef := None\<rparr>)
      else Inr (if length faces > 1 then [multiple_faces_detected] else [],
                s\<lparr>noFaceSinceRef := None\<rparr>))"
proof -
  have len: "length (orderedFaces faces) = length faces"
    by simp
  show ?thesis
    using assms len
    by (cases "edgeSinceRef s") (simp_all add: evaluateFaces_def Let_def del: length_orderedFaces)
qed

lemma updateFlags_fields:
  "edgeSinceRef (updateFlags types now s) = edgeSinceRef s"
  "noFaceSinceRef (updateFlags types now s) = noFaceSinceRef s"
  "isCancelled (updateFlags types now s) = isCancelled s"
  "detectorRef (updateFlags types now s) = detectorRef s"
  "videoRef (updateFlags types now s) = videoRef s"
  "pendingTimeouts (updateFlags types now s) = pendingTimeouts s"
  by (simp_all add: updateFlags_def setFlags_def split: updated.splits)

lemma scheduleDetection_more_fields:
  "isCancelled (scheduleDetection s) = isCancelled s"
  "detectorRef (scheduleDetection s) = detectorRef s"
  "videoRef (scheduleDetection s) = videoRef s"
  "pendingTimeouts (scheduleDetection s) \<noteq> []"
  by (simp_all add: scheduleDetection_def Let_def)

text \<open>What a completed evaluation leaves in \<open>edgeSinceRef\<close>.\<close>

lemma resume_edge:
  assumes ev: "evaluateFaces faces now s = Inr (nextFlags, s1)"
  shows "edgeSinceRef (runDetection_resume (Resolved faces) now s)
         = (if nextFlags = [] then None else edgeSinceRef s1)"
  using ev
  by (simp add: runDetection_resume_def scheduleDetection_fields updateFlags_fields
      resetFlags_cleared)

lemma resume_live:
  assumes ev: "evaluateFaces faces now s = Inr (nextFlags, s1)"
  shows "pendingTimeouts (runDetection_resume (Resolved faces) now s) \<noteq> []"
    and "isCancelled (runDetection_resume (Resolved faces) now s) = isCancelled s"
    and "detectorRef (runDetection_resume (Resolved faces) now s) = detectorRef s"
    and "videoRef (runDetection_resume (Resolved faces) now s) = videoRef s"
  using ev evaluateFaces_frame [OF ev]
  by (simp_all add: runDetection_resume_def scheduleDetection_more_fields updateFlags_fields
      resetFlags_fields)

lemma fireTimeout_edge:
  assumes live: "loopLive s"
    and after: "edgeSinceRef (fireTimeout x s) = Some t"
  shows "loopLive (fireTimeout x s)
         \<and> ((edgeSinceRef s = Some t \<and> edgeObservation x \<noteq> Some False)
            \<or> (edgeObservation x = Some True \<and> tick_now x = t))"
proof -
  from live obtain h hs v a where pend: "pendingTimeouts s = h # hs"
    and vid: "videoRef s = Some v" and det: "detectorRef s = Some a"
    and nc: "\<not> isCancelled s"
    by (auto simp: loopLive_def neq_Nil_conv)
  define s0 where "s0 = s\<lparr>pendingTimeouts := hs, videoRef := Some (tick_video x)\<rparr>"
  have fire: "fireTimeout x s = runDetection (tick_outcome x) (tick_now x) s0"
    by (simp add: fireTimeout_def pend vid s0_def)
  have s0: "videoRef s0 = Some (tick_video x)" "\<not> isCancelled s0" "detectorRef s0 = Some a"
    "edgeSinceRef s0 = edgeSinceRef s"
    by (simp_all add: s0_def nc det)
  show ?thesis
  proof (cases "srcObject (tick_video x) = None")
    case True
    then have "fireTimeout x s = scheduleDetection (resetFlags s0)"
      by (simp add: fire runDetection_def runDetection_start_def s0)
    with after show ?thesis
      by (simp add: scheduleDetection_fields resetFlags_cleared)
  next
    case bound: False
    show ?thesis
    proof (cases "readyState (tick_video x) < 2 \<or> videoWidth (tick_video x) = 0")
      case True
      with bound have eq: "fireTimeout x s = scheduleDetection s0"
        by (auto simp: fire runDetection_def runDetection_start_def s0)
      have "edgeObservation x = None"
        using True bound by (auto simp: edgeObservation_def Let_def)
      with after show ?thesis
        by (simp add: eq scheduleDetection_fields scheduleDetection_more_fields s0 loopLive_def)
    next
      case ready: False
      define s1 where "s1 = s0\<lparr>detectCalls := Suc (detectCalls s0)\<rparr>"
      have s1: "videoRef s1 = Some (tick_video x)" "\<not> isCancelled s1" "detectorRef s1 = Some a"
        "edgeSinceRef s1 = edgeSinceRef s"
        by (simp_all add: s1_def s0)
      from ready bound have eq: "fireTimeout x s
          = runDetection_resume (tick_outcome x) (tick_now x) s1"
        by (auto simp: fire runDetection_def runDetection_start_def s0 s1_def)
      show ?thesis
      proof (cases "tick_outcome x")
        case (Rejected err)
        then have "fireTimeout x s = detectionFailed err s1"
          by (simp add: eq runDetection_resume_def s1)
        moreover have "edgeSinceRef (detectionFailed err s1) = None"
          unfolding detectionFailed_def Let_def by (simp add: resetFlags_cleared)
        ultimately show ?thesis
          using after by simp
      next
        case (Resolved faces)
        show ?thesis
        proof (cases "orderedFaces faces")
          case Nil
          then have "faces = []"
            by simp
          then have "edgeSinceRef (fireTimeout x s) = None"
            using resume_edge [OF evaluateFaces_no_faces, of "tick_now x" s1]
            by (simp add: eq Resolved)
          with after show ?thesis
            by simp
        next
          case (Cons primaryFace others)
          let ?touch = "touchesEdge (boundingBox primaryFace)
              (videoWidth (tick_video x)) (videoHeight (tick_video x))"
          obtain nextFlags s2 where ev: "evaluateFaces faces (tick_now x) s1 = Inr (nextFlags, s2)"
            using evaluateFaces_faces [OF Cons s1(1), of "tick_now x"]
            by (auto split: if_splits option.splits)
          have live': "loopLive (fireTimeout x s)"
            using resume_live [OF ev] s1
            by (simp add: eq Resolved loopLive_def)
          have edge: "edgeSinceRef s2 = Some t"
            using resume_edge [OF ev] after
            by (simp add: eq Resolved split: if_splits)
          have obs: "edgeObservation x =
              (if videoHeight (tick_video x) = 0 then None else Some ?touch)"
            using ready bound by (auto simp: edgeObservation_def Let_def Resolved Cons)
          have "(edgeSinceRef s = Some t \<and> edgeObservation x \<noteq> Some False)
            \<or> (edgeObservation x = Some True \<and> tick_now x = t)"
            using ev edge ready
            unfolding evaluateFaces_faces [OF Cons s1(1)] obs
            by (auto simp: s1 split: if_splits option.splits)
          with live' show ?thesis
            by simp
        qed
      qed
    qed
  qed
qed

lemma fireTimeout_not_live:
  assumes "\<not> loopLive s"
  shows "edgeSinceRef (fireTimeout x s) = edgeSinceRef s"
proof (cases "pendingTimeouts s")
  case Nil
  then show ?thesis
    by (simp add: fireTimeout_def)
next
  case (Cons h hs)
  with assms have "isCancelled s \<or> detectorRef s = None \<or> videoRef s = None"
    by (auto simp: loopLive_def)
  then show ?thesis
    by (auto simp: fireTimeout_def Cons runDetection_def runDetection_start_def
        split: option.splits)
qed

lemma runTicks_snoc: "runTicks (ticks @ [x]) s = fireTimeout x (runTicks ticks s)"
  by (induction ticks arbitrary: s) simp_all

lemma edge_timer_history:
  assumes start: "edgeSinceRef s0 = None"
  shows "(edgeSinceRef (runTicks ticks s0) \<noteq> None \<longrightarrow> loopLive (runTicks ticks s0))
     \<and> (\<forall>t. edgeSinceRef (runTicks ticks s0) = Some t \<longrightarrow>
          (\<exists>pre e suf. ticks = pre @ e # suf \<and> tick_now e = t
              \<and> edgeObservation e = Some True
              \<and> (\<forall>x \<in> set suf. edgeObservation x \<noteq> Some False)))"
proof (induction ticks rule: rev_induct)
  case Nil
  then show ?case
    by (simp add: start)
next
  case (snoc x ticks)
  let ?s = "runTicks ticks s0"
  let ?s' = "runTicks (ticks @ [x]) s0"
  have s': "?s' = fireTimeout x ?s"
    by (rule runTicks_snoc)
  show ?case
  proof (intro conjI allI impI)
    assume "edgeSinceRef ?s' \<noteq> None"
    then obtain t where t: "edgeSinceRef (fireTimeout x ?s) = Some t"
      by (auto simp: s')
    have "loopLive ?s"
    proof (rule ccontr)
      assume dead: "\<not> loopLive ?s"
      then have "edgeSinceRef ?s = Some t"
        using t by (simp add: fireTimeout_not_live)
      with snoc.IH dead show False
        by simp
    qed
    from fireTimeout_edge [OF this t] show "loopLive ?s'"
      by (simp add: s')
  next
    fix t assume "edgeSinceRef ?s' = Some t"
    then have t: "edgeSinceRef (fireTimeout x ?s) = Some t"
      by (simp add: s')
    have live: "loopLive ?s"
    proof (rule ccontr)
      assume dead: "\<not> loopLive ?s"
      then have "edgeSinceRef ?s = Some t"
        using t by (simp add: fireTimeout_not_live)
      with snoc.IH dead show False
        by simp
    qed
    from fireTimeout_edge [OF live t]
    consider (kept) "edgeSinceRef ?s = Some t" "edgeObservation x \<noteq> Some False"
      | (set) "edgeObservation x = Some True" "tick_now x = t"
      by blast
    then show "\<exists>pre e suf. ticks @ [x] = pre @ e # suf \<and> tick_now e = t
              \<and> edgeObservation e = Some True
              \<and> (\<forall>y \<in> set suf. edgeObservation y \<noteq> Some False)"
    proof cases
      case kept
      with snoc.IH obtain pre e suf where "ticks = pre @ e # suf" "tick_now e = t"
        "edgeObservation e = Some True" "\<forall>y \<in> set suf. edgeObservation y \<noteq> Some False"
        by blast
      with kept(2) have "ticks @ [x] = pre @ e # (suf @ [x]) \<and> tick_now e = t
          \<and> edgeObservation e = Some True
          \<and> (\<forall>y \<in> set (suf @ [x]). edgeObservation y \<noteq> Some False)"
        by simp
      then show ?thesis
        by blast
    next
      case set
      then have "ticks @ [x] = ticks @ x # [] \<and> tick_now x = t
          \<and> edgeObservation x = Some True
          \<and> (\<forall>y \<in> set []. edgeObservation y \<noteq> Some False)"
        by simp
      then show ?thesis
        by blast
    qed
  qed
qed

lemma updateFlags_types:
  "map flag_type (flags (updateFlags types now s)) = prioritizedTypes types"
proof (cases "prioritizedTypes types = map flag_type (flags s)")
  case True
  then have "updateFlags_updater types now (flags s) = Same"
    by (simp add: updater_Same_iff)
  then show ?thesis
    using True by (simp add: updateFlags_def setFlags_def)
next
  case False
  then have "updateFlags_updater types now (flags s) \<noteq> Same"
    by (simp add: updater_Same_iff)
  then have "flags (updateFlags types now s) = map (\<lambda>ty.
             case previousByType (flags s) ty of
               Some existing \<Rightarrow> existing
             | None \<Rightarrow> \<lparr>flag_type = ty, message = FLAG_MESSAGES ty, since = now\<rparr>)
           (prioritizedTypes types)"
    by (auto simp: updateFlags_def setFlags_def updateFlags_updater_def split: if_splits)
  then show ?thesis
    by (auto simp: comp_def dest: previousByType_Some split: option.splits
        intro!: map_idI)
qed

lemma primary_largest:
  assumes "orderedFaces faces = primaryFace # others"
  shows "\<forall>a \<in> set faces. area a \<le> area primaryFace"
proof -
  have "sorted_wrt (\<lambda>a b. area a \<ge> area b) (primaryFace # others)"
    using orderedFaces_descending [of faces] assms by simp
  moreover have "set faces = set (primaryFace # others)"
    using assms by (metis orderedFaces_sort_key set_sort)
  ultimately show ?thesis
    by auto
qed

lemma two_faces_tick:
  "runTicks
     [\<lparr>tick_video = readyVideo,
       tick_outcome = Resolved
         [\<lparr>boundingBox = \<lparr>rect_x = 10, rect_y = 100, width = 200, height = 200\<rparr>\<rparr>,
          \<lparr>boundingBox = \<lparr>rect_x = 300, rect_y = 200, width = 50, height = 50\<rparr>\<rparr>],
       tick_now = 1000\<rparr>] monitoring
   = monitoring
       \<lparr>flags := [\<lparr>flag_type = multiple_faces_detected,
                   message = FLAG_MESSAGES multiple_faces_detected, since = 1000\<rparr>],
        flagsVersion := 1,
        videoRef := Some readyVideo,
        detectionTimerRef := Some 2,
        edgeSinceRef := Some 1000,
        pendingTimeouts := [2], lastTimeoutId := 2, detectCalls := 1\<rparr>"
  by (simp add: fireTimeout_def runDetection_def runDetection_start_def runDetection_resume_def
      evaluateFaces_def orderedFaces_def compareArea_def touchesEdge_def EDGE_MARGIN_RATIO_def
      EDGE_THRESHOLD_MS_def monitoring_eq readyVideo_def Let_def updateFlags_def setFlags_def
      updateFlags_updater_def prioritizedTypes_def FLAG_PRIORITY_def everyTypeMatches_def
      previousByType_def scheduleDetection_def)

text \<open>
  C2. \<open>face_near_frame_edge\<close> is a candidate of a cycle only if the snapshot is not
  empty, \<open>multiple_faces_detected\<close> is not a candidate of the same cycle, the primary
  face (the head of the ordered snapshot, of largest area) violates the margin of 8% on
  some side of a frame whose width and height are not zero, and the edge timer was set at least 1500 ms before. The timer tells the
  truth: in any run of the loop that starts without an edge timer, the timer found by the
  cycle was set by an earlier tick that showed a primary face within the margin, at least
  1500 ms before, and no tick since then showed the contrary. And a run of
  \<open>runDetection\<close> that gets to detect two or more faces publishes
  \<open>multiple_faces_detected\<close> alone.
\<close>

theorem C2_face_near_edge_candidate:
  "(evaluateFaces faces now s = Inr (nextFlags, s') \<and> face_near_frame_edge \<in> set nextFlags \<longrightarrow>
      faces \<noteq> []
      \<and> multiple_faces_detected \<notin> set nextFlags
      \<and> (\<exists>video primaryFace others t.
            videoRef s = Some video
            \<and> orderedFaces faces = primaryFace # others
            \<and> (\<forall>a \<in> set faces. area a \<le> area primaryFace)
            \<and> videoWidth video \<noteq> 0 \<and> videoHeight video \<noteq> 0
            \<and> (rect_x (boundingBox primaryFace) / of_nat (videoWidth video) \<le> 8 / 100
               \<or> rect_y (boundingBox primaryFace) / of_nat (videoHeight video) \<le> 8 / 100
               \<or> (rect_x (boundingBox primaryFace) + width (boundingBox primaryFace))
                    / of_nat (videoWidth video) \<ge> 92 / 100
               \<or> (rect_y (boundingBox primaryFace) + height (boundingBox primaryFace))
                    / of_nat (videoHeight video) \<ge> 92 / 100)
            \<and> edgeSinceRef s = Some t \<and> now - t \<ge> 1500))
   \<and> (edgeSinceRef s0 = None \<and> edgeSinceRef s = edgeSinceRef (runTicks ticks s0)
        \<and> evaluateFaces faces now s = Inr (nextFlags, s')
        \<and> face_near_frame_edge \<in> set nextFlags \<longrightarrow>
      (\<exists>pre e suf. ticks = pre @ e # suf
          \<and> now - tick_now e \<ge> 1500
          \<and> edgeObservation e = Some True
          \<and> (\<forall>x \<in> set suf. edgeObservation x \<noteq> Some False)))
   \<and> (length faces \<ge> 2 \<and> runDetection_start s = AwaitingDetect s1 \<longrightarrow>
      map flag_type (flags (runDetection (Resolved faces) now s)) = [multiple_faces_detected])"
proof (intro conjI impI)
  assume a: "evaluateFaces faces now s = Inr (nextFlags, s') \<and> face_near_frame_edge \<in> set nextFlags"
  then have ev: "evaluateFaces faces now s = Inr (nextFlags, s')"
    and fne: "face_near_frame_edge \<in> set nextFlags"
    by simp_all
  show ne: "faces \<noteq> []"
  proof
    assume "faces = []"
    with ev fne show False
      by (auto simp: evaluateFaces_no_faces split: if_splits)
  qed
  then obtain primaryFace others where ord: "orderedFaces faces = primaryFace # others"
    by (cases "orderedFaces faces") simp_all
  obtain video where vid: "videoRef s = Some video"
    using ev ord by (cases "videoRef s") (auto simp: evaluateFaces_def Let_def)
  note char = evaluateFaces_faces [OF ord vid, of now]
  show "multiple_faces_detected \<notin> set nextFlags"
    using ev fne unfolding char
    by (auto split: if_splits option.splits)
  have touch: "touchesEdge (boundingBox primaryFace) (videoWidth video) (videoHeight video)"
    using ev fne unfolding char
    by (auto split: if_splits option.splits)
  have timer: "\<exists>t. edgeSinceRef s = Some t \<and> now - t \<ge> 1500"
    using ev fne unfolding char
    by (auto simp: EDGE_THRESHOLD_MS_def split: if_splits option.splits)
  have size: "videoWidth video \<noteq> 0 \<and> videoHeight video \<noteq> 0"
    using ev fne unfolding char
    by (auto split: if_splits option.splits)
  have margin: "rect_x (boundingBox primaryFace) / of_nat (videoWidth video) \<le> 8 / 100
               \<or> rect_y (boundingBox primaryFace) / of_nat (videoHeight video) \<le> 8 / 100
               \<or> (rect_x (boundingBox primaryFace) + width (boundingBox primaryFace))
                    / of_nat (videoWidth video) \<ge> 92 / 100
               \<or> (rect_y (boundingBox primaryFace) + height (boundingBox primaryFace))
                    / of_nat (videoHeight video) \<ge> 92 / 100"
    using touch by (simp add: touchesEdge_def EDGE_MARGIN_RATIO_def Let_def)
  from vid ord primary_largest [OF ord] size margin timer
  show "\<exists>video primaryFace others t.
            videoRef s = Some video
            \<and> orderedFaces faces = primaryFace # others
            \<and> (\<forall>a \<in> set faces. area a \<le> area primaryFace)
            \<and> videoWidth video \<noteq> 0 \<and> videoHeight video \<noteq> 0
            \<and> (rect_x (boundingBox primaryFace) / of_nat (videoWidth video) \<le> 8 / 100
               \<or> rect_y (boundingBox primaryFace) / of_nat (videoHeight video) \<le> 8 / 100
               \<or> (rect_x (boundingBox primaryFace) + width (boundingBox primaryFace))
                    / of_nat (videoWidth video) \<ge> 92 / 100
               \<or> (rect_y (boundingBox primaryFace) + height (boundingBox primaryFace))
                    / of_nat (videoHeight video) \<ge> 92 / 100)
            \<and> edgeSinceRef s = Some t \<and> now - t \<ge> 1500"
    by blast
next
  assume a: "edgeSinceRef s0 = None \<and> edgeSinceRef s = edgeSinceRef (runTicks ticks s0)
        \<and> evaluateFaces faces now s = Inr (nextFlags, s')
        \<and> face_near_frame_edge \<in> set nextFlags"
  then have start: "edgeSinceRef s0 = None"
    and same: "edgeSinceRef s = edgeSinceRef (runTicks ticks s0)"
    and ev: "evaluateFaces faces now s = Inr (nextFlags, s')"
    and fne: "face_near_frame_edge \<in> set nextFlags"
    by simp_all
  have ne: "faces \<noteq> []"
  proof
    assume "faces = []"
    with ev fne show False
      by (auto simp: evaluateFaces_no_faces split: if_splits)
  qed
  then obtain primaryFace others where ord: "orderedFaces faces = primaryFace # others"
    by (cases "orderedFaces faces") simp_all
  obtain video where vid: "videoRef s = Some video"
    using ev ord by (cases "videoRef s") (auto simp: evaluateFaces_def Let_def)
  have "\<exists>t. edgeSinceRef s = Some t \<and> now - t \<ge> 1500"
    using ev fne unfolding evaluateFaces_faces [OF ord vid, of now]
    by (auto simp: EDGE_THRESHOLD_MS_def split: if_splits option.splits)
  then obtain t where t: "edgeSinceRef (runTicks ticks s0) = Some t" and long: "now - t \<ge> 1500"
    using same by auto
  from edge_timer_history [OF start, of ticks] t
  obtain pre e suf where "ticks = pre @ e # suf" "tick_now e = t"
    "edgeObservation e = Some True" "\<forall>x \<in> set suf. edgeObservation x \<noteq> Some False"
    by blast
  with long show "\<exists>pre e suf. ticks = pre @ e # suf
          \<and> now - tick_now e \<ge> 1500
          \<and> edgeObservation e = Some True
          \<and> (\<forall>x \<in> set suf. edgeObservation x \<noteq> Some False)"
    by blast
next
  assume a: "length faces \<ge> 2 \<and> runDetection_start s = AwaitingDetect s1"
  then have two: "length faces \<ge> 2" and st: "runDetection_start s = AwaitingDetect s1"
    by simp_all
  from st obtain video where vid: "videoRef s1 = Some video"
    by (auto simp: runDetection_start_def split: option.splits if_splits)
  from two have "orderedFaces faces \<noteq> []"
    by auto
  then obtain primaryFace others where ord: "orderedFaces faces = primaryFace # others"
    by (cases "orderedFaces faces") simp_all
  from two have more: "1 < length faces"
    by simp
  have "\<exists>s2. evaluateFaces faces now s1 = Inr ([multiple_faces_detected], s2)"
    unfolding evaluateFaces_faces [OF ord vid, of now]
    using more by (cases "edgeSinceRef s1") simp_all
  then obtain s2 where ev: "evaluateFaces faces now s1 = Inr ([multiple_faces_detected], s2)"
    by blast
  have "runDetection (Resolved faces) now s
        = scheduleDetection (updateFlags [multiple_faces_detected] now s2)"
    using st ev by (simp add: runDetection_def runDetection_resume_def)
  then show "map flag_type (flags (runDetection (Resolved faces) now s)) = [multiple_faces_detected]"
    by (simp add: scheduleDetection_fields updateFlags_types prioritizedTypes_def FLAG_PRIORITY_def)
qed

theorem C2_face_near_edge_candidate_witness:
  "edgeObservation
     \<lparr>tick_video = readyVideo,
      tick_outcome = Resolved
        [\<lparr>boundingBox = \<lparr>rect_x = 10, rect_y = 100, width = 200, height = 200\<rparr>\<rparr>,
         \<lparr>boundingBox = \<lparr>rect_x = 300, rect_y = 200, width = 50, height = 50\<rparr>\<rparr>],
      tick_now = 1000\<rparr> = Some True
   \<and> map flag_type (flags (runDetection
        (Resolved
          [\<lparr>boundingBox = \<lparr>rect_x = 10, rect_y = 100, width = 200, height = 200\<rparr>\<rparr>,
           \<lparr>boundingBox = \<lparr>rect_x = 300, rect_y = 200, width = 50, height = 50\<rparr>\<rparr>])
        1000 (monitoring\<lparr>videoRef := Some readyVideo\<rparr>)))
     = [multiple_faces_detected]"
proof -
  let ?near = "\<lparr>boundingBox = \<lparr>rect_x = 10, rect_y = 100, width = 200, height = 200\<rparr>\<rparr>"
  let ?far = "\<lparr>boundingBox = \<lparr>rect_x = 300, rect_y = 200, width = 50, height = 50\<rparr>\<rparr>"
  let ?T = "\<lparr>tick_video = readyVideo, tick_outcome = Resolved [?near, ?far], tick_now = 1000\<rparr>"
  let ?s = "runTicks [?T] monitoring"
  have s: "?s = monitoring
       \<lparr>flags := [\<lparr>flag_type = multiple_faces_detected,
                   message = FLAG_MESSAGES multiple_faces_detected, since = 1000\<rparr>],
        flagsVersion := 1,
        videoRef := Some readyVideo,
        detectionTimerRef := Some 2,
        edgeSinceRef := Some 1000,
        pendingTimeouts := [2], lastTimeoutId := 2, detectCalls := 1\<rparr>"
    by (rule two_faces_tick)
  have start: "edgeSinceRef monitoring = None"
    by (simp add: monitoring_eq)
  have ev: "evaluateFaces [?near] 2500 ?s
            = Inr ([face_near_frame_edge], ?s\<lparr>noFaceSinceRef := None\<rparr>)"
    unfolding s
    by (simp add: evaluateFaces_def orderedFaces_def touchesEdge_def EDGE_MARGIN_RATIO_def
        EDGE_THRESHOLD_MS_def monitoring_eq readyVideo_def Let_def)
  from C2_face_near_edge_candidate [where s = ?s and faces = "[?near]" and now = 2500
      and nextFlags = "[face_near_frame_edge]" and s' = "?s\<lparr>noFaceSinceRef := None\<rparr>"
      and ?s0.0 = monitoring and ticks = "[?T]"] start ev
  obtain pre e suf where split: "[?T] = pre @ e # suf" and obs: "edgeObservation e = Some True"
    by auto
  from split have "e = ?T"
    by (simp add: Cons_eq_append_conv)
  with obs have first: "edgeObservation ?T = Some True"
    by simp
  have two: "length [?near, ?far] \<ge> 2"
    by simp
  have awaiting: "runDetection_start (monitoring\<lparr>videoRef := Some readyVideo\<rparr>)
      = AwaitingDetect (monitoring\<lparr>videoRef := Some readyVideo, detectCalls := 1\<rparr>)"
    by (simp add: runDetection_start_def monitoring_eq readyVideo_def)
  from C2_face_near_edge_candidate [where s = "monitoring\<lparr>videoRef := Some readyVideo\<rparr>"
      and faces = "[?near, ?far]" and now = 1000
      and ?s1.0 = "monitoring\<lparr>videoRef := Some readyVideo, detectCalls := 1\<rparr>"]
    two awaiting
  have "map flag_type (flags (runDetection (Resolved [?near, ?far]) 1000
          (monitoring\<lparr>videoRef := Some readyVideo\<rparr>))) = [multiple_faces_detected]"
    by blast
  with first show ?thesis
    by blast
qed

subsection \<open>The no-face timer\<close>

lemma resume_keeps_no_face_out:
  assumes timer: "noFaceSinceRef s = None"
  shows "noFaceSinceRef (runDetection_resume outcome now s) = None
         \<and> (no_face_detected \<notin> flag_type ` set (flags s) \<longrightarrow>
              no_face_detected \<notin> flag_type ` set (flags (runDetection_resume outcome now s)))"
proof -
  have failed: "noFaceSinceRef (detectionFailed err s1) = None
      \<and> flags (detectionFailed err s1) = []" for err s1
    unfolding detectionFailed_def Let_def using resetFlags_cleared by blast
  have caught: "noFaceSinceRef r = None
         \<and> (no_face_detected \<notin> flag_type ` set (flags s) \<longrightarrow>
              no_face_detected \<notin> flag_type ` set (flags r))"
    if "r = (if \<not> isCancelled s1 then detectionFailed err s1 else scheduleDetection s1)"
      and "noFaceSinceRef s1 = None" and "flags s1 = flags s" for r err s1
    using that failed [of err s1] by (simp add: scheduleDetection_fields)
  have evaluated: "noFaceSinceRef r = None
         \<and> (no_face_detected \<notin> flag_type ` set (flags s) \<longrightarrow>
              no_face_detected \<notin> flag_type ` set (flags r))"
    if "r = scheduleDetection
              (if length nextFlags \<noteq> 0 then updateFlags nextFlags now s1 else resetFlags s1)"
      and "noFaceSinceRef s1 = None \<or> nextFlags = []"
      and "no_face_detected \<notin> set nextFlags" for r nextFlags s1
  proof (cases "nextFlags = []")
    case True
    with that show ?thesis
      by (simp add: scheduleDetection_fields resetFlags_cleared)
  next
    case False
    have "set (map flag_type (flags (updateFlags nextFlags now s1))) \<subseteq> set nextFlags"
      unfolding updateFlags_types by (auto simp: prioritizedTypes_def)
    then have "no_face_detected \<notin> flag_type ` set (flags (updateFlags nextFlags now s1))"
      using that(3) by auto
    with that False show ?thesis
      by (simp add: scheduleDetection_fields updateFlags_fields)
  qed
  show ?thesis
  proof (cases outcome)
    case (Rejected err)
    then have "runDetection_resume outcome now s
        = (if \<not> isCancelled s then detectionFailed err s else scheduleDetection s)"
      by (simp add: runDetection_resume_def)
    from caught [OF this timer] show ?thesis
      by simp
  next
    case (Resolved faces)
    show ?thesis
    proof (cases "orderedFaces faces")
      case Nil
      then have "faces = []"
        by simp
      then have "runDetection_resume outcome now s
          = scheduleDetection (if length ([] :: MalpracticeFlagType list) \<noteq> 0
              then updateFlags [] now (s\<lparr>noFaceSinceRef := Some now, edgeSinceRef := None\<rparr>)
              else resetFlags (s\<lparr>noFaceSinceRef := Some now, edgeSinceRef := None\<rparr>))"
        using timer
        by (simp add: runDetection_resume_def Resolved evaluateFaces_no_faces
            NO_FACE_THRESHOLD_MS_def)
      from evaluated [OF this] show ?thesis
        by simp
    next
      case (Cons primaryFace others)
      show ?thesis
      proof (cases "videoRef s")
        case None
        then have "runDetection_resume outcome now s
            = (if \<not> isCancelled (s\<lparr>noFaceSinceRef := None\<rparr>)
               then detectionFailed (ErrorObject ''TypeError'') (s\<lparr>noFaceSinceRef := None\<rparr>)
               else scheduleDetection (s\<lparr>noFaceSinceRef := None\<rparr>))"
          by (simp add: runDetection_resume_def Resolved evaluateFaces_def Cons Let_def)
        from caught [OF this] show ?thesis
          by simp
      next
        case (Some video)
        obtain nextFlags s1 where ev: "evaluateFaces faces now s = Inr (nextFlags, s1)"
          and nf: "no_face_detected \<notin> set nextFlags" and t1: "noFaceSinceRef s1 = None"
          using evaluateFaces_faces [OF Cons Some, of now]
          by (auto split: if_splits option.splits)
        then have "runDetection_resume outcome now s
            = scheduleDetection
                (if length nextFlags \<noteq> 0 then updateFlags nextFlags now s1 else resetFlags s1)"
          by (simp add: runDetection_resume_def Resolved)
        from evaluated [OF this] t1 nf show ?thesis
          by simp
      qed
    qed
  qed
qed

lemma fireTimeout_keeps_no_face_out:
  assumes timer: "noFaceSinceRef s = None"
  shows "noFaceSinceRef (fireTimeout x s) = None
         \<and> (no_face_detected \<notin> flag_type ` set (flags s) \<longrightarrow>
              no_face_detected \<notin> flag_type ` set (flags (fireTimeout x s)))"
proof (cases "pendingTimeouts s")
  case Nil
  then show ?thesis
    using timer by (simp add: fireTimeout_def)
next
  case (Cons h hs)
  define s0 where "s0 = s\<lparr>pendingTimeouts := hs,
      videoRef := (case videoRef s of None \<Rightarrow> None | Some v \<Rightarrow> Some (tick_video x))\<rparr>"
  have fire: "fireTimeout x s = runDetection (tick_outcome x) (tick_now x) s0"
    by (simp add: fireTimeout_def Cons s0_def)
  have s0: "noFaceSinceRef s0 = None" "flags s0 = flags s"
    by (simp_all add: s0_def timer)
  show ?thesis
  proof (cases "runDetection_start s0")
    case (Returned r)
    then have "r = s0 \<or> r = scheduleDetection (resetFlags s0) \<or> r = scheduleDetection s0"
      by (auto simp: runDetection_start_def split: option.splits if_splits)
    moreover have "fireTimeout x s = r"
      by (simp add: fire runDetection_def Returned)
    ultimately show ?thesis
      using s0 by (auto simp: scheduleDetection_fields resetFlags_cleared)
  next
    case (AwaitingDetect r)
    then have r: "r = s0\<lparr>detectCalls := Suc (detectCalls s0)\<rparr>"
      by (auto simp: runDetection_start_def split: option.splits if_splits)
    have "fireTimeout x s = runDetection_resume (tick_outcome x) (tick_now x) r"
      by (simp add: fire runDetection_def AwaitingDetect)
    moreover have "noFaceSinceRef r = None" "flags r = flags s"
      by (simp_all add: r s0)
    ultimately show ?thesis
      using resume_keeps_no_face_out [of r "tick_outcome x" "tick_now x"] by simp
  qed
qed

lemma no_face_never_published:
  assumes "noFaceSinceRef s = None" and "no_face_detected \<notin> flag_type ` set (flags s)"
  shows "noFaceSinceRef (runTicks ticks s) = None
         \<and> no_face_detected \<notin> flag_type ` set (flags (runTicks ticks s))"
  using assms
proof (induction ticks arbitrary: s)
  case Nil
  then show ?case by simp
next
  case (Cons x ticks)
  from fireTimeout_keeps_no_face_out [OF Cons.prems(1), of x] Cons.prems(2)
  have "noFaceSinceRef (fireTimeout x s) = None"
    and "no_face_detected \<notin> flag_type ` set (flags (fireTimeout x s))"
    by simp_all
  from Cons.IH [OF this] show ?case
    by simp
qed

lemma no_face_tick:
  "fireTimeout \<lparr>tick_video = readyVideo, tick_outcome = Resolved [], tick_now = now\<rparr>
     (monitoring\<lparr>videoRef := Some v, detectionTimerRef := Some h, pendingTimeouts := [h],
        lastTimeoutId := h, detectCalls := n\<rparr>)
   = monitoring\<lparr>videoRef := Some readyVideo, detectionTimerRef := Some (Suc h),
        pendingTimeouts := [Suc h], lastTimeoutId := Suc h, detectCalls := Suc n\<rparr>"
  by (simp add: fireTimeout_def runDetection_def runDetection_start_def runDetection_resume_def
      evaluateFaces_def orderedFaces_def NO_FACE_THRESHOLD_MS_def monitoring_eq readyVideo_def
      Let_def resetFlags_def setFlags_def resetFlags_updater_def scheduleDetection_def)

text \<open>
  C1 asks for \<open>no_face_detected\<close> to be raised once no face has been seen for 3000 ms.
  The code does not get there. A cycle without a face sets \<open>noFaceSinceRef\<close>, finds
  no candidate flag and calls \<open>resetFlags\<close>, which clears the timer again; so the timer
  is null at the start of every cycle and the flag is never published
  (\<open>no_face_never_published\<close>). Here: monitoring has started, a frame of 640 by 480 is
  at hand, and five ticks 750 ms apart, from 1000 to 4000, detect no face. All five ask
  the adapter, and after the fifth, 3000 ms after the first, no flag is published and the
  timer is null.
\<close>

theorem C1_no_face_flag_never_raised:
  "detectCalls (runTicks
        [\<lparr>tick_video = readyVideo, tick_outcome = Resolved [], tick_now = 1000\<rparr>,
         \<lparr>tick_video = readyVideo, tick_outcome = Resolved [], tick_now = 1750\<rparr>,
         \<lparr>tick_video = readyVideo, tick_outcome = Resolved [], tick_now = 2500\<rparr>,
         \<lparr>tick_video = readyVideo, tick_outcome = Resolved [], tick_now = 3250\<rparr>,
         \<lparr>tick_video = readyVideo, tick_outcome = Resolved [], tick_now = 4000\<rparr>]
        monitoring) = 5
   \<and> flags (runTicks
        [\<lparr>tick_video = readyVideo, tick_outcome = Resolved [], tick_now = 1000\<rparr>,
         \<lparr>tick_video = readyVideo, tick_outcome = Resolved [], tick_now = 1750\<rparr>,
         \<lparr>tick_video = readyVideo, tick_outcome = Resolved [], tick_now = 2500\<rparr>,
         \<lparr>tick_video = readyVideo, tick_outcome = Resolved [], tick_now = 3250\<rparr>,
         \<lparr>tick_video = readyVideo, tick_outcome = Resolved [], tick_now = 4000\<rparr>]
        monitoring) = []
   \<and> noFaceSinceRef (runTicks
        [\<lparr>tick_video = readyVideo, tick_outcome = Resolved [], tick_now = 1000\<rparr>,
         \<lparr>tick_video = readyVideo, tick_outcome = Resolved [], tick_now = 1750\<rparr>,
         \<lparr>tick_video = readyVideo, tick_outcome = Resolved [], tick_now = 2500\<rparr>,
         \<lparr>tick_video = readyVideo, tick_outcome = Resolved [], tick_now = 3250\<rparr>,
         \<lparr>tick_video = readyVideo, tick_outcome = Resolved [], tick_now = 4000\<rparr>]
        monitoring) = None"
proof -
  have start: "monitoring = monitoring\<lparr>videoRef :=
        Some \<lparr>srcObject = Some 1, readyState = 0, videoWidth = 0, videoHeight = 0\<rparr>,
      detectionTimerRef := Some 1, pendingTimeouts := [1], lastTimeoutId := 1, detectCalls := 0\<rparr>"
    by (simp add: monitoring_eq)
  have "runTicks
        [\<lparr>tick_video = readyVideo, tick_outcome = Resolved [], tick_now = 1000\<rparr>,
         \<lparr>tick_video = readyVideo, tick_outcome = Resolved [], tick_now = 1750\<rparr>,
         \<lparr>tick_video = readyVideo, tick_outcome = Resolved [], tick_now = 2500\<rparr>,
         \<lparr>tick_video = readyVideo, tick_outcome = Resolved [], tick_now = 3250\<rparr>,
         \<lparr>tick_video = readyVideo, tick_outcome = Resolved [], tick_now = 4000\<rparr>]
        monitoring
      = monitoring\<lparr>videoRef := Some readyVideo, detectionTimerRef := Some 6,
          pendingTimeouts := [6], lastTimeoutId := 6, detectCalls := 5\<rparr>"
    by (subst start) (simp add: no_face_tick eval_nat_numeral)
  then show ?thesis
    by (simp add: monitoring_eq)
qed

end
